theory Spec2Isabelle
  imports Complex_Main
begin

section \<open>The training harness of dionysus (training.py)\<close>

text \<open>
  A shallow embedding of \<^verbatim>\<open>src/src/dionysus/training.py\<close>: the dataclass
  \<^verbatim>\<open>TrainingConfig\<close> with its \<^verbatim>\<open>__post_init__\<close>, and the functions
  \<^verbatim>\<open>train\<close> and \<^verbatim>\<open>run_epoch\<close>.

  Everything the Python mutates is a field of an explicit state (\<open>world\<close>) that every
  function takes and returns. Every exception the code of training.py itself can raise
  (an unbound local name, an attribute missing on a string, a missing dictionary key,
  unpacking or iterating \<^verbatim>\<open>None\<close>, a directory that exists) is a value of \<open>error\<close>;
  a function returns the state it reached together with either the error or its result,
  so what was mutated before an exception stays visible.

  torch, numpy, scikit-learn, the clock and the helpers of \<^verbatim>\<open>dionysus.utils\<close> and
  \<^verbatim>\<open>dionysus.constants\<close> (modules that are not among the sources) are parameters,
  collected in the record \<open>library\<close>. Their calls are taken to return: an exception of
  theirs would pass through \<^verbatim>\<open>train\<close> unchanged and is outside this development.
  A tensor is identified with its value, so moving it to a device
  (\<^verbatim>\<open>utils.moveTo\<close>, \<^verbatim>\<open>model.to\<close>) is the identity, and Python floats are
  idealised as reals; no property below depends on a float's value.
\<close>

subsection \<open>Python values\<close>

text \<open>The exceptions raised by the code of training.py. An unbound local is Python's
  \<^verbatim>\<open>UnboundLocalError\<close>, a subclass of \<^verbatim>\<open>NameError\<close>; the string is the name.\<close>

datatype error =
    NameError string
  | AttributeError string string
  | TypeError string
  | KeyError string
  | FileExistsError string

text \<open>A local variable that an assignment may not have reached yet.\<close>

datatype 'a var = Unbound | Bound 'a

text \<open>\<^verbatim>\<open>torch.device\<close>: a device type and an optional index; equality is structural.\<close>

datatype torch_device = TorchDevice string "nat option"

definition cpu :: torch_device where
  "cpu = TorchDevice ''cpu'' None"

definition cuda0 :: torch_device where
  "cuda0 = TorchDevice ''cuda'' (Some 0)"

text \<open>The field \<^verbatim>\<open>device\<close> holds a string selector or a \<^verbatim>\<open>torch.device\<close>.
  A string never equals a \<^verbatim>\<open>torch.device\<close> (both \<^verbatim>\<open>__eq__\<close> return
  \<^verbatim>\<open>NotImplemented\<close>).\<close>

datatype device_value = DeviceName string | DeviceObj torch_device

text \<open>The field \<^verbatim>\<open>optimizer\<close> holds a string selector until \<^verbatim>\<open>__post_init__\<close> replaces
  it by \<^verbatim>\<open>torch.optim.SGD(model.parameters(), lr)\<close> or \<^verbatim>\<open>torch.optim.AdamW(...)\<close>;
  the bound optimizer keeps its learning rate.\<close>

datatype optimizer_value = OptimizerName string | SGD real | AdamW real

text \<open>An entry of a result series: the epoch number is an int, every other entry a float;
  \<^verbatim>\<open>np.mean\<close> of an empty list is nan.\<close>

datatype scalar = IntV int | FloatV real | NaN

fun np_mean :: "real list \<Rightarrow> scalar" where
  "np_mean [] = NaN"
| "np_mean (v # vs) = FloatV (sum_list (v # vs) / real (length (v # vs)))"

text \<open>One call of \<^verbatim>\<open>logging.info\<close>. Text computed by a library (a confusion matrix, a
  report, a size, a latency) is not spelled out.\<close>

datatype log_entry =
    Info string
  | UsingDevice torch_device
  | DeviceNotAvailable device_value
  | FinishedEpoch int real
  | LastEpoch int
  | ConfusionMatrixText
  | BaselineReportText
  | ReportText
  | FinishedTraining real
  | ModelSize
  | AverageLatency

text \<open>A file written by a reporting helper of \<^verbatim>\<open>dionysus.utils\<close>.\<close>

datatype artifact =
    SaveLoss string
  | SaveMetrics string string
  | SaveConfusionMatrix string
  | ZipResults

subsection \<open>TrainingConfig\<close>

text \<open>
  The dataclass, field by field. \<open>'v\<close> is the type of tensors and arrays (inputs, targets,
  predictions, the loss), \<open>'p\<close> the type of what a training step mutates: the model's
  parameters with their gradients and the optimizer's state. The model is its forward pass,
  a function of the current parameters and of the flag \<^verbatim>\<open>model.training\<close>; a loader is the
  finite sequence of \<^verbatim>\<open>(x, y)\<close> batches it yields on each pass.
  \<^verbatim>\<open>save_path_final\<close> is the attribute that \<^verbatim>\<open>__post_init__\<close> sets when
  \<^verbatim>\<open>save_model\<close> holds.
\<close>

record ('v, 'p) TrainingConfig =
  model :: "'p \<Rightarrow> bool \<Rightarrow> 'v \<Rightarrow> 'v"
  loss_func :: "'v \<Rightarrow> 'v \<Rightarrow> 'v"
  training_loader :: "('v \<times> 'v) list"
  validation_loader :: "('v \<times> 'v) list option"
  lr :: real
  optimizer :: optimizer_value
  epochs :: int
  device :: device_value
  save_model :: bool
  colab :: bool
  zip_result :: bool
  save_path :: "string option"
  model_name :: "string option"
  classification_metrics :: bool
  class_names :: "string list option"
  progress_bar :: bool
  checkpoint_epochs :: "int list option"
  save_path_final :: "string var"

text \<open>The four numbers \<^verbatim>\<open>run_epoch\<close> reads from scikit-learn's classification report.\<close>

record report =
  accuracy :: real
  macro_recall :: real
  macro_precision :: real
  macro_f1score :: real

text \<open>The validation snapshot: \<^verbatim>\<open>(y_true, y_pred)\<close>.\<close>

type_synonym 'v snapshot = "'v list \<times> 'v list"

text \<open>One call of \<^verbatim>\<open>save_checkpoint(epoch, config, results, validation_result, x_sample)\<close>:
  the tag is an epoch index or \<^verbatim>\<open>"last"\<close>.\<close>

datatype tag = AtEpoch int | Last

record ('v, 'p) checkpoint =
  ck_tag :: tag
  ck_params :: 'p
  ck_results :: "string \<rightharpoonup> scalar list"
  ck_validation_result :: "'v snapshot option"
  ck_x_sample :: 'v

text \<open>The mutable state: the parameters, \<^verbatim>\<open>model.training\<close>, the number of clock readings
  taken, the log, the dictionary \<^verbatim>\<open>results\<close> of the running \<^verbatim>\<open>train\<close>, the calls of
  \<^verbatim>\<open>save_checkpoint\<close> and of the reporting helpers, the file of the root logger's handler
  and the directories created.\<close>

record ('v, 'p) world =
  params :: 'p
  training :: bool
  ticks :: nat
  logged :: "log_entry list"
  results :: "string \<rightharpoonup> scalar list"
  checkpoints :: "('v, 'p) checkpoint list"
  artifacts :: "artifact list"
  logfile :: "string option"
  dirs :: "string list"

text \<open>The libraries. \<^verbatim>\<open>time_time n\<close> is the reading of the \<open>n\<close>-th call of
  \<^verbatim>\<open>time.time()\<close>; \<^verbatim>\<open>asarray_shape\<close> is \<^verbatim>\<open>np.asarray(y_pred).shape\<close>;
  \<^verbatim>\<open>first_row x\<close> is \<^verbatim>\<open>x[0, :].unsqueeze(0)\<close>; \<^verbatim>\<open>tolist\<close> is
  \<^verbatim>\<open>.detach().cpu().numpy().tolist()\<close>.\<close>

record ('v, 'p) library =
  cuda_is_available :: bool
  strftime_now :: string
  LOG_FILE :: string
  time_time :: "nat \<Rightarrow> real"
  backward :: "'v \<Rightarrow> 'p \<Rightarrow> 'p"
  optimizer_step :: "optimizer_value \<Rightarrow> 'p \<Rightarrow> 'p"
  zero_grad :: "'p \<Rightarrow> 'p"
  item :: "'v \<Rightarrow> real"
  is_tensor :: "'v \<Rightarrow> bool"
  tolist :: "'v \<Rightarrow> 'v list"
  asarray_shape :: "'v list \<Rightarrow> nat list"
  argmax :: "'v list \<Rightarrow> 'v list"
  classification_report :: "'v list \<Rightarrow> 'v list \<Rightarrow> report"
  first_row :: "'v \<Rightarrow> 'v"

definition info :: "log_entry \<Rightarrow> ('v, 'p) world \<Rightarrow> ('v, 'p) world" where
  "info m w = w\<lparr>logged := logged w @ [m]\<rparr>"

subsection \<open>TrainingConfig.__post_init__\<close>

text \<open>Lines 55-58: the two recognised selectors are replaced by an optimizer bound to the
  model's parameters; the chain has no \<^verbatim>\<open>else\<close>.\<close>

definition bind_optimizer :: "('v, 'p) TrainingConfig \<Rightarrow> ('v, 'p) TrainingConfig" where
  "bind_optimizer c =
     (if optimizer c = OptimizerName ''SGD'' then c\<lparr>optimizer := SGD (lr c)\<rparr>
      else if optimizer c = OptimizerName ''AdamW'' then c\<lparr>optimizer := AdamW (lr c)\<rparr>
      else c)"

text \<open>Lines 60-70: the directory of the run and the log file. \<^verbatim>\<open>Path(None)\<close> raises
  \<^verbatim>\<open>TypeError\<close>; \<^verbatim>\<open>mkdir(parents=True, exist_ok=False)\<close> raises
  \<^verbatim>\<open>FileExistsError\<close> when the directory exists; a model name \<^verbatim>\<open>None\<close> is
  formatted as \<^verbatim>\<open>"None"\<close>.\<close>

definition make_save_path ::
  "('v, 'p) library \<Rightarrow> ('v, 'p) TrainingConfig \<Rightarrow> ('v, 'p) world \<Rightarrow>
   ('v, 'p) world \<times> (error + ('v, 'p) TrainingConfig \<times> string)" where
  "make_save_path lib c w =
     (if save_model c then
        (case save_path c of
           None \<Rightarrow> (w, Inl (TypeError ''Path''))
         | Some p \<Rightarrow>
             (let final = p @ ''/'' @ strftime_now lib @ ''_'' @
                            (case model_name c of None \<Rightarrow> ''None'' | Some n \<Rightarrow> n)
              in if final \<in> set (dirs w) then (w, Inl (FileExistsError final))
                 else (w\<lparr>dirs := dirs w @ [final]\<rparr>,
                       Inr (c\<lparr>save_path_final := Bound final\<rparr>, final @ ''/'' @ LOG_FILE lib))))
      else (w, Inr (c, LOG_FILE lib)))"

text \<open>Lines 72-77: \<^verbatim>\<open>logging.basicConfig\<close> installs the handler when the root logger has
  none, or when \<^verbatim>\<open>force\<close> is set.\<close>

definition basicConfig :: "string \<Rightarrow> bool \<Rightarrow> ('v, 'p) world \<Rightarrow> ('v, 'p) world" where
  "basicConfig file force w =
     (if logfile w = None \<or> force then w\<lparr>logfile := Some file\<rparr> else w)"

text \<open>A \<^verbatim>\<open>torch.device\<close> defines neither \<^verbatim>\<open>__bool__\<close> nor \<^verbatim>\<open>__len__\<close>, so it is
  true in a condition.\<close>

definition truthy_device :: "torch_device \<Rightarrow> bool" where
  "truthy_device d = True"

text \<open>Lines 79-86: the device chain, with the conditions as the source writes them. The
  second condition is \<^verbatim>\<open>self.device == "cpu" or torch.device("cpu")\<close>.\<close>

definition resolve_device ::
  "('v, 'p) library \<Rightarrow> ('v, 'p) TrainingConfig \<Rightarrow> ('v, 'p) world \<Rightarrow>
   ('v, 'p) world \<times> ('v, 'p) TrainingConfig" where
  "resolve_device lib c w =
     (if device c = DeviceName ''gpu'' \<or> device c = DeviceObj cuda0 then
        (let d = (if cuda_is_available lib then cuda0 else cpu)
         in (info (UsingDevice d) w, c\<lparr>device := DeviceObj d\<rparr>))
      else if device c = DeviceName ''cpu'' \<or> truthy_device cpu then
        (info (UsingDevice cpu) w, c\<lparr>device := DeviceObj cpu\<rparr>)
      else (info (DeviceNotAvailable (device c)) w, c))"

definition post_init ::
  "('v, 'p) library \<Rightarrow> ('v, 'p) TrainingConfig \<Rightarrow> ('v, 'p) world \<Rightarrow>
   ('v, 'p) world \<times> (error + ('v, 'p) TrainingConfig)" where
  "post_init lib c w =
     (case make_save_path lib (bind_optimizer c) w of
        (w1, Inl e) \<Rightarrow> (w1, Inl e)
      | (w1, Inr (c1, file)) \<Rightarrow>
          (case resolve_device lib c1 (basicConfig file (colab c1) w1) of
             (w2, c2) \<Rightarrow> (w2, Inr c2)))"

subsection \<open>run_epoch\<close>

text \<open>The locals of the batch loop: \<^verbatim>\<open>running_loss\<close>, \<^verbatim>\<open>y_true\<close>, \<^verbatim>\<open>y_pred\<close> and
  the loop variable \<^verbatim>\<open>x\<close>, which is unbound until the loader yields a batch.\<close>

record 'v epoch_locals =
  running_loss :: "real list"
  y_true :: "'v list"
  y_pred :: "'v list"
  x_last :: "'v var"

definition init_locals :: "'v epoch_locals" where
  "init_locals = \<lparr>running_loss = [], y_true = [], y_pred = [], x_last = Unbound\<rparr>"

text \<open>Lines 177-180: two separate \<^verbatim>\<open>if\<close>s; with any other prefix \<^verbatim>\<open>data_loader\<close> stays
  unbound. The validation loader may be \<^verbatim>\<open>None\<close>.\<close>

definition select_loader ::
  "('v, 'p) TrainingConfig \<Rightarrow> string \<Rightarrow> ('v \<times> 'v) list option var" where
  "select_loader c prefix =
     (let data_loader = (if prefix = ''training'' then Bound (Some (training_loader c))
                         else Unbound)
      in if prefix = ''validation'' then Bound (validation_loader c) else data_loader)"

text \<open>Lines 194-197: only when \<^verbatim>\<open>model.training\<close> holds, \<^verbatim>\<open>loss.backward()\<close>, then
  \<^verbatim>\<open>config.optimizer.step()\<close>, then \<^verbatim>\<open>config.optimizer.zero_grad()\<close>. A selector
  that \<^verbatim>\<open>__post_init__\<close> left in the field is a \<^verbatim>\<open>str\<close>, which has no \<^verbatim>\<open>step\<close>.\<close>

definition training_step ::
  "('v, 'p) library \<Rightarrow> ('v, 'p) TrainingConfig \<Rightarrow> 'v \<Rightarrow> ('v, 'p) world \<Rightarrow>
   ('v, 'p) world \<times> (error + unit)" where
  "training_step lib c loss w =
     (if training w then
        (let w1 = w\<lparr>params := backward lib loss (params w)\<rparr>
         in case optimizer c of
              OptimizerName s \<Rightarrow> (w1, Inl (AttributeError ''str'' ''step''))
            | opt \<Rightarrow>
                (w1\<lparr>params := zero_grad lib (optimizer_step lib opt (params w1))\<rparr>, Inr ()))
      else (w, Inr ()))"

text \<open>Lines 188-207: the body of the batch loop.\<close>

definition run_batch ::
  "('v, 'p) library \<Rightarrow> ('v, 'p) TrainingConfig \<Rightarrow> 'v \<times> 'v \<Rightarrow> ('v, 'p) world \<Rightarrow>
   'v epoch_locals \<Rightarrow> ('v, 'p) world \<times> (error + 'v epoch_locals)" where
  "run_batch lib c b w l =
     (let x = fst b; y = snd b;
          y_hat = model c (params w) (training w) x;
          loss = loss_func c y_hat y
      in case training_step lib c loss w of
           (w1, Inl e) \<Rightarrow> (w1, Inl e)
         | (w1, Inr u) \<Rightarrow>
             (let l1 = l\<lparr>running_loss := running_loss l @ [item lib loss], x_last := Bound x\<rparr>
              in if classification_metrics c \<and> is_tensor lib y
                 then (w1, Inr (l1\<lparr>y_true := y_true l @ tolist lib y,
                                   y_pred := y_pred l @ tolist lib y_hat\<rparr>))
                 else (w1, Inr l1)))"

fun run_batches ::
  "('v, 'p) library \<Rightarrow> ('v, 'p) TrainingConfig \<Rightarrow> ('v \<times> 'v) list \<Rightarrow> ('v, 'p) world \<Rightarrow>
   'v epoch_locals \<Rightarrow> ('v, 'p) world \<times> (error + 'v epoch_locals)" where
  "run_batches lib c [] w l = (w, Inr l)"
| "run_batches lib c (b # bs) w l =
     (case run_batch lib c b w l of
        (w1, Inl e) \<Rightarrow> (w1, Inl e)
      | (w1, Inr l1) \<Rightarrow> run_batches lib c bs w1 l1)"

text \<open>Lines 211-215: predictions that form a two-dimensional array with more than one
  column become labels.\<close>

definition hard_labels :: "('v, 'p) library \<Rightarrow> 'v list \<Rightarrow> 'v list" where
  "hard_labels lib ps =
     (let shape = asarray_shape lib ps
      in if length shape = 2 \<and> 1 < shape ! 1 then argmax lib ps else ps)"

text \<open>\<^verbatim>\<open>results[k].append(v)\<close>: a missing key raises \<^verbatim>\<open>KeyError\<close>; no key is ever
  created.\<close>

definition append_result ::
  "string \<Rightarrow> scalar \<Rightarrow> ('v, 'p) world \<Rightarrow> ('v, 'p) world \<times> (error + unit)" where
  "append_result k v w =
     (case results w k of
        None \<Rightarrow> (w, Inl (KeyError k))
      | Some s \<Rightarrow> (w\<lparr>results := (results w)(k \<mapsto> s @ [v])\<rparr>, Inr ()))"

fun append_all ::
  "(string \<times> scalar) list \<Rightarrow> ('v, 'p) world \<Rightarrow> ('v, 'p) world \<times> (error + unit)" where
  "append_all [] w = (w, Inr ())"
| "append_all ((k, v) # kvs) w =
     (case append_result k v w of
        (w1, Inl e) \<Rightarrow> (w1, Inl e)
      | (w1, Inr u) \<Rightarrow> append_all kvs w1)"

text \<open>Lines 218-228: the entries one epoch appends, in the order of the source.\<close>

definition epoch_entries ::
  "('v, 'p) library \<Rightarrow> ('v, 'p) TrainingConfig \<Rightarrow> string \<Rightarrow> 'v epoch_locals \<Rightarrow>
   (string \<times> scalar) list" where
  "epoch_entries lib c prefix l =
     (if classification_metrics c then
        (let r = classification_report lib (y_true l) (hard_labels lib (y_pred l))
         in [(prefix @ ''_accuracy'', FloatV (accuracy r)),
             (prefix @ ''_macro_recall'', FloatV (macro_recall r)),
             (prefix @ ''_macro_precision'', FloatV (macro_precision r)),
             (prefix @ ''_macro_f1score'', FloatV (macro_f1score r))])
      else [])
     @ [(prefix @ ''_loss'', np_mean (running_loss l))]"

text \<open>Lines 209-241: what follows the batch loop. \<open>start\<close> is the reading taken before the
  loop. The \<^verbatim>\<open>return\<close> reads \<^verbatim>\<open>x\<close>, unbound when the loader yielded no batch.\<close>

definition finish_epoch ::
  "('v, 'p) library \<Rightarrow> ('v, 'p) TrainingConfig \<Rightarrow> int \<Rightarrow> string \<Rightarrow> real \<Rightarrow>
   'v epoch_locals \<Rightarrow> ('v, 'p) world \<Rightarrow>
   ('v, 'p) world \<times> (error + real \<times> 'v snapshot option \<times> 'v)" where
  "finish_epoch lib c epoch prefix start l w =
     (let end = time_time lib (ticks w);
          w1 = w\<lparr>ticks := Suc (ticks w)\<rparr>
      in case append_all (epoch_entries lib c prefix l) w1 of
           (w2, Inl e) \<Rightarrow> (w2, Inl e)
         | (w2, Inr u) \<Rightarrow>
             (let time_elapsed = end - start;
                  w3 = (if \<not> progress_bar c \<and> prefix = ''training''
                        then info (FinishedEpoch (epoch + 1) (time_elapsed / 60)) w2 else w2);
                  w4 = (if epochs c - 1 = epoch \<and> prefix = ''validation''
                        then info (LastEpoch epoch) w3 else w3);
                  validation_result =
                    (if epochs c - 1 = epoch \<and> prefix = ''validation''
                     then Some (y_true l, hard_labels lib (y_pred l)) else None)
              in case x_last l of
                   Unbound \<Rightarrow> (w4, Inl (NameError ''x''))
                 | Bound x \<Rightarrow> (w4, Inr (time_elapsed, validation_result, x))))"

text \<open>\<^verbatim>\<open>run_epoch(config, results, epoch, prefix)\<close>; the dictionary \<^verbatim>\<open>results\<close> is the field
  of the state. Iterating an unbound \<^verbatim>\<open>data_loader\<close> raises \<^verbatim>\<open>NameError\<close>, iterating
  \<^verbatim>\<open>None\<close> raises \<^verbatim>\<open>TypeError\<close>; both after the first clock reading.\<close>

definition run_epoch ::
  "('v, 'p) library \<Rightarrow> ('v, 'p) TrainingConfig \<Rightarrow> int \<Rightarrow> string \<Rightarrow> ('v, 'p) world \<Rightarrow>
   ('v, 'p) world \<times> (error + real \<times> 'v snapshot option \<times> 'v)" where
  "run_epoch lib c epoch prefix w =
     (let start = time_time lib (ticks w);
          w0 = w\<lparr>ticks := Suc (ticks w)\<rparr>
      in case select_loader c prefix of
           Unbound \<Rightarrow> (w0, Inl (NameError ''data_loader''))
         | Bound None \<Rightarrow> (w0, Inl (TypeError ''NoneType object is not iterable''))
         | Bound (Some batches) \<Rightarrow>
             (case run_batches lib c batches w0 init_locals of
                (w1, Inl e) \<Rightarrow> (w1, Inl e)
              | (w1, Inr l) \<Rightarrow> finish_epoch lib c epoch prefix start l w1))"

subsection \<open>train\<close>

text \<open>Lines 91-99: the names of the series, in the order of the source.\<close>

definition to_track :: "('v, 'p) TrainingConfig \<Rightarrow> string list" where
  "to_track c =
     [''epoch'', ''epoch_time'', ''training_loss'']
     @ (if validation_loader c \<noteq> None then [''validation_loss''] else [])
     @ (if classification_metrics c then
          concat (map (\<lambda>name. [''training_'' @ name]
                         @ (if validation_loader c \<noteq> None then [''validation_'' @ name] else []))
                      [''accuracy'', ''macro_recall'', ''macro_precision'', ''macro_f1score''])
        else [])"

text \<open>Lines 101-103: every tracked name starts with an empty series.\<close>

fun init_results :: "string list \<Rightarrow> (string \<rightharpoonup> scalar list) \<Rightarrow> (string \<rightharpoonup> scalar list)" where
  "init_results [] r = r"
| "init_results (name # names) r = init_results names (r(name \<mapsto> []))"

text \<open>The locals of \<^verbatim>\<open>train\<close> that the epoch loop assigns. \<^verbatim>\<open>validation_result\<close> is
  assigned in the validation branch only, \<^verbatim>\<open>x_sample\<close> in every epoch.\<close>

record 'v train_locals =
  time_training :: real
  validation_result :: "'v snapshot option var"
  x_sample :: "'v var"

definition init_train_locals :: "'v train_locals" where
  "init_train_locals = \<lparr>time_training = 0, validation_result = Unbound, x_sample = Unbound\<rparr>"

text \<open>Modelled from the spec: \<^verbatim>\<open>save_checkpoint\<close> of \<^verbatim>\<open>dionysus.utils\<close> is not among the
  sources. Section 3 of the spec makes a checkpoint event a record of the tag, the model
  state, the accumulated results, the current validation snapshot and a sample input; the
  call is recorded as such an event. What is from training.py is the evaluation of the
  arguments, left to right: reading an unbound \<^verbatim>\<open>validation_result\<close> or
  \<^verbatim>\<open>x_sample\<close> raises \<^verbatim>\<open>NameError\<close> before any call is made.\<close>

definition save_checkpoint ::
  "tag \<Rightarrow> 'v train_locals \<Rightarrow> ('v, 'p) world \<Rightarrow> ('v, 'p) world \<times> (error + unit)" where
  "save_checkpoint t l w =
     (case validation_result l of
        Unbound \<Rightarrow> (w, Inl (NameError ''validation_result''))
      | Bound vr \<Rightarrow>
          (case x_sample l of
             Unbound \<Rightarrow> (w, Inl (NameError ''x_sample''))
           | Bound xs \<Rightarrow>
               (w\<lparr>checkpoints := checkpoints w @
                     [\<lparr>ck_tag = t, ck_params = params w, ck_results = results w,
                       ck_validation_result = vr, ck_x_sample = xs\<rparr>]\<rparr>,
                Inr ())))"

text \<open>Lines 115-120: the validation pass, in evaluation mode. Under \<^verbatim>\<open>torch.no_grad()\<close>
  the forward pass computes the same values.\<close>

definition validate ::
  "('v, 'p) library \<Rightarrow> ('v, 'p) TrainingConfig \<Rightarrow> int \<Rightarrow> 'v train_locals \<Rightarrow>
   ('v, 'p) world \<Rightarrow> ('v, 'p) world \<times> (error + 'v train_locals)" where
  "validate lib c epoch l w =
     (if validation_loader c \<noteq> None then
        (case run_epoch lib c epoch ''validation'' (w\<lparr>training := False\<rparr>) of
           (w1, Inl e) \<Rightarrow> (w1, Inl e)
         | (w1, Inr (t, vr, x)) \<Rightarrow> (w1, Inr (l\<lparr>validation_result := Bound vr\<rparr>)))
      else (w, Inr l))"

text \<open>Lines 125-126.\<close>

definition checkpoint_at ::
  "('v, 'p) TrainingConfig \<Rightarrow> int \<Rightarrow> 'v train_locals \<Rightarrow> ('v, 'p) world \<Rightarrow>
   ('v, 'p) world \<times> (error + unit)" where
  "checkpoint_at c epoch l w =
     (case checkpoint_epochs c of
        None \<Rightarrow> (w, Inr ())
      | Some ce \<Rightarrow> if epoch \<in> set ce then save_checkpoint (AtEpoch epoch) l w else (w, Inr ()))"

text \<open>Lines 110-126: the body of the epoch loop.\<close>

definition train_epoch ::
  "('v, 'p) library \<Rightarrow> ('v, 'p) TrainingConfig \<Rightarrow> int \<Rightarrow> ('v, 'p) world \<Rightarrow>
   'v train_locals \<Rightarrow> ('v, 'p) world \<times> (error + 'v train_locals)" where
  "train_epoch lib c epoch w l =
     (case run_epoch lib c epoch ''training'' (w\<lparr>training := True\<rparr>) of
        (w1, Inl e) \<Rightarrow> (w1, Inl e)
      | (w1, Inr (epoch_time, vr, x)) \<Rightarrow>
          (let l1 = l\<lparr>x_sample := Bound (first_row lib x),
                      time_training := time_training l + epoch_time\<rparr>
           in case validate lib c epoch l1 w1 of
                (w2, Inl e) \<Rightarrow> (w2, Inl e)
              | (w2, Inr l2) \<Rightarrow>
                  (case append_all [(''epoch'', IntV (epoch + 1)),
                                    (''epoch_time'', FloatV epoch_time)] w2 of
                     (w3, Inl e) \<Rightarrow> (w3, Inl e)
                   | (w3, Inr u) \<Rightarrow>
                       (case checkpoint_at c epoch l2 w3 of
                          (w4, Inl e) \<Rightarrow> (w4, Inl e)
                        | (w4, Inr u) \<Rightarrow> (w4, Inr l2)))))"

fun train_epochs ::
  "('v, 'p) library \<Rightarrow> ('v, 'p) TrainingConfig \<Rightarrow> int list \<Rightarrow> ('v, 'p) world \<Rightarrow>
   'v train_locals \<Rightarrow> ('v, 'p) world \<times> (error + 'v train_locals)" where
  "train_epochs lib c [] w l = (w, Inr l)"
| "train_epochs lib c (epoch # rest) w l =
     (case train_epoch lib c epoch w l of
        (w1, Inl e) \<Rightarrow> (w1, Inl e)
      | (w1, Inr l1) \<Rightarrow> train_epochs lib c rest w1 l1)"

text \<open>Lines 131-161: the report. Unpacking an unbound \<^verbatim>\<open>validation_result\<close> raises
  \<^verbatim>\<open>NameError\<close>, unpacking \<^verbatim>\<open>None\<close> raises \<^verbatim>\<open>TypeError\<close>; the writers read
  \<^verbatim>\<open>config.save_path_final\<close>.\<close>

definition report_classification ::
  "('v, 'p) TrainingConfig \<Rightarrow> 'v train_locals \<Rightarrow> ('v, 'p) world \<Rightarrow>
   ('v, 'p) world \<times> (error + unit)" where
  "report_classification c l w =
     (case validation_result l of
        Unbound \<Rightarrow> (w, Inl (NameError ''validation_result''))
      | Bound None \<Rightarrow> (w, Inl (TypeError ''cannot unpack non-iterable NoneType object''))
      | Bound (Some (yt, yp)) \<Rightarrow>
          (let w1 = info ReportText (info (Info ''classification report: '')
                     (info BaselineReportText (info (Info ''classification report baseline: '')
                       (info ConfusionMatrixText (info (Info ''confusion matrix: '') w)))))
           in if save_model c then
                (case save_path_final c of
                   Unbound \<Rightarrow> (w1, Inl (AttributeError ''TrainingConfig'' ''save_path_final''))
                 | Bound p \<Rightarrow>
                     (w1\<lparr>artifacts := artifacts w1 @
                           [SaveLoss p, SaveMetrics p ''training'', SaveMetrics p ''validation'',
                            SaveConfusionMatrix p]\<rparr>,
                      Inr ()))
              else (w1, Inr ())))"

text \<open>\<^verbatim>\<open>train(config)\<close>. \<^verbatim>\<open>range(config.epochs)\<close> is the list \<open>[0..epochs c - 1]\<close>, empty
  when \<^verbatim>\<open>epochs\<close> is not positive. The function returns \<^verbatim>\<open>None\<close>; its local
  \<^verbatim>\<open>results\<close> is read from the final state.\<close>

definition train ::
  "('v, 'p) library \<Rightarrow> ('v, 'p) TrainingConfig \<Rightarrow> ('v, 'p) world \<Rightarrow>
   ('v, 'p) world \<times> (error + unit)" where
  "train lib c w =
     (let w0 = (info (Info ''starting training'') w)
                 \<lparr>results := init_results (to_track c) Map.empty\<rparr>
      in case train_epochs lib c [0..epochs c - 1] w0 init_train_locals of
           (w1, Inl e) \<Rightarrow> (w1, Inl e)
         | (w1, Inr l) \<Rightarrow>
             (case (if save_model c then save_checkpoint Last l w1 else (w1, Inr ())) of
                (w2, Inl e) \<Rightarrow> (w2, Inl e)
              | (w2, Inr u) \<Rightarrow>
                  (case (if classification_metrics c then report_classification c l w2
                         else (w2, Inr ())) of
                     (w3, Inl e) \<Rightarrow> (w3, Inl e)
                   | (w3, Inr u) \<Rightarrow>
                       (let w4 = info AverageLatency (info ModelSize
                                   (info (FinishedTraining (time_training l / 60 / 60)) w3))
                        in (if zip_result c then w4\<lparr>artifacts := artifacts w4 @ [ZipResults]\<rparr>
                            else w4,
                            Inr ())))))"

subsection \<open>A concrete run\<close>

text \<open>A small instance on which the definitions are evaluated: tensors and parameters are
  integers, the model adds its parameter to the input, a training step counts up.\<close>

definition example_library :: "(int, int) library" where
  "example_library =
     \<lparr>cuda_is_available = False, strftime_now = ''20240101_120000'', LOG_FILE = ''log.txt'',
      time_time = (\<lambda>n. real n), backward = (\<lambda>loss p. p + 1),
      optimizer_step = (\<lambda>opt p. p + 1), zero_grad = (\<lambda>p. p), item = (\<lambda>v. real_of_int v),
      is_tensor = (\<lambda>y. True), tolist = (\<lambda>v. [v]), asarray_shape = (\<lambda>ps. [length ps]),
      argmax = (\<lambda>ps. ps),
      classification_report =
        (\<lambda>yt yp. \<lparr>accuracy = 1, macro_recall = 1, macro_precision = 1, macro_f1score = 1\<rparr>),
      first_row = (\<lambda>x. x)\<rparr>"

text \<open>The arguments of a constructor call: the defaults of the dataclass, one training
  batch and three epochs.\<close>

definition example_args :: "(int, int) TrainingConfig" where
  "example_args =
     \<lparr>model = (\<lambda>p t x. x + p), loss_func = (\<lambda>yh y. yh - y),
      training_loader = [(1, 2)], validation_loader = None,
      lr = 1 / 1000, optimizer = OptimizerName ''SGD'', epochs = 3, device = DeviceName ''cpu'',
      save_model = False, colab = False, zip_result = False, save_path = None,
      model_name = None, classification_metrics = False, class_names = None,
      progress_bar = True, checkpoint_epochs = None, save_path_final = Unbound\<rparr>"

text \<open>A constructed configuration with a validation loader.\<close>

definition example_config :: "(int, int) TrainingConfig" where
  "example_config =
     example_args\<lparr>validation_loader := Some [(3, 4)], optimizer := SGD (1 / 1000),
                  device := DeviceObj cpu\<rparr>"

definition example_world :: "(int, int) world" where
  "example_world =
     \<lparr>params = 0, training = False, ticks = 0, logged = [], results = Map.empty,
      checkpoints = [], artifacts = [], logfile = None, dirs = []\<rparr>"

section \<open>Properties\<close>

subsection \<open>Construction\<close>

lemma cpu_neq_cuda0: "cpu \<noteq> cuda0"
  by (simp add: cpu_def cuda0_def)

lemma resolve_device_cases:
  "resolve_device lib c w =
     (let d = (if (device c = DeviceName ''gpu'' \<or> device c = DeviceObj cuda0)
                  \<and> cuda_is_available lib
               then cuda0 else cpu)
      in (info (UsingDevice d) w, c\<lparr>device := DeviceObj d\<rparr>))"
  by (simp add: resolve_device_def truthy_device_def Let_def)

lemma post_init_Inr:
  assumes "post_init lib c w = (w', Inr c')"
  obtains w1 c1 lf where
    "make_save_path lib (bind_optimizer c) w = (w1, Inr (c1, lf))"
    "resolve_device lib c1 (basicConfig lf (colab c1) w1) = (w', c')"
  using assms by (auto simp: post_init_def split: prod.splits sum.splits)

lemma make_save_path_fields:
  assumes "make_save_path lib c w = (w1, Inr (c1, lf))"
  shows "device c1 = device c" and "optimizer c1 = optimizer c" and "logged w1 = logged w"
  using assms
  by (auto simp: make_save_path_def Let_def split: if_splits option.splits)

lemma basicConfig_logged: "logged (basicConfig lf force w) = logged w"
  by (simp add: basicConfig_def)

lemma bind_optimizer_device: "device (bind_optimizer c) = device c"
  by (simp add: bind_optimizer_def)

text \<open>
  Claim C9. After every construction that completes, \<^verbatim>\<open>config.device\<close> is
  \<^verbatim>\<open>torch.device("cpu")\<close> or \<^verbatim>\<open>torch.device("cuda:0")\<close>; every selector other than
  \<^verbatim>\<open>"gpu"\<close> and \<^verbatim>\<open>cuda:0\<close> resolves to the CPU; and the one entry the device chain
  logs is "using device", so the branch that logs "device ... is not available, using cpu
  instead" is never taken.
\<close>

theorem post_init_device:
  assumes "post_init lib c w = (w', Inr c')"
  shows "(device c' = DeviceObj cpu \<or> device c' = DeviceObj cuda0) \<and>
         (device c \<noteq> DeviceName ''gpu'' \<and> device c \<noteq> DeviceObj cuda0
            \<longrightarrow> device c' = DeviceObj cpu) \<and>
         (\<exists>d. logged w' = logged w @ [UsingDevice d] \<and> device c' = DeviceObj d)"
proof -
  from assms obtain w1 c1 lf where
    m: "make_save_path lib (bind_optimizer c) w = (w1, Inr (c1, lf))" and
    r: "resolve_device lib c1 (basicConfig lf (colab c1) w1) = (w', c')"
    by (rule post_init_Inr)
  have d: "device c1 = device c"
    using make_save_path_fields(1)[OF m] by (simp add: bind_optimizer_device)
  have l: "logged w1 = logged w"
    by (rule make_save_path_fields(3)[OF m])
  show ?thesis
    using r d l
    by (auto simp: resolve_device_cases Let_def info_def basicConfig_logged split: if_splits)
qed

text \<open>The theorem at a constructor call with the selector \<^verbatim>\<open>"tpu"\<close>: the construction
  completes and the device is the CPU.\<close>

theorem post_init_device_witness:
  "post_init example_library (example_args\<lparr>device := DeviceName ''tpu''\<rparr>) example_world =
     (example_world\<lparr>logged := [UsingDevice cpu], logfile := Some ''log.txt''\<rparr>,
      Inr (example_args\<lparr>optimizer := SGD (1 / 1000), device := DeviceObj cpu\<rparr>)) \<and>
   device (example_args\<lparr>optimizer := SGD (1 / 1000), device := DeviceObj cpu\<rparr>) = DeviceObj cpu"
proof -
  have run: "post_init example_library (example_args\<lparr>device := DeviceName ''tpu''\<rparr>) example_world =
     (example_world\<lparr>logged := [UsingDevice cpu], logfile := Some ''log.txt''\<rparr>,
      Inr (example_args\<lparr>optimizer := SGD (1 / 1000), device := DeviceObj cpu\<rparr>))"
    by (simp add: post_init_def make_save_path_def bind_optimizer_def basicConfig_def
        resolve_device_def truthy_device_def info_def example_library_def example_args_def
        example_world_def cpu_def cuda0_def)
  from post_init_device [OF run] show ?thesis
    using run by (simp add: cpu_neq_cuda0)
qed

subsection \<open>The batch loop\<close>

lemma training_step_eval: "\<not> training w \<Longrightarrow> training_step lib c loss w = (w, Inr ())"
  by (simp add: training_step_def)

lemma training_step_frame:
  "training_step lib c loss w = (w', r) \<Longrightarrow>
     training w' = training w \<and> ticks w' = ticks w \<and> logged w' = logged w \<and>
     results w' = results w \<and> checkpoints w' = checkpoints w \<and> artifacts w' = artifacts w"
  by (auto simp: training_step_def Let_def split: if_splits optimizer_value.splits)

lemma training_step_error:
  "training_step lib c loss w = (w', Inl e) \<Longrightarrow>
     e = AttributeError ''str'' ''step'' \<and> training w \<and> (\<exists>s. optimizer c = OptimizerName s)"
  by (auto simp: training_step_def Let_def split: if_splits optimizer_value.splits)

lemma training_step_bound:
  "\<forall>s. optimizer c \<noteq> OptimizerName s \<Longrightarrow> training_step lib c loss w = (w', r) \<Longrightarrow> r = Inr ()"
  by (auto simp: training_step_def Let_def split: if_splits optimizer_value.splits)

lemma training_step_name:
  "training w \<Longrightarrow> optimizer c = OptimizerName s \<Longrightarrow> training_step lib c loss w = (w', r) \<Longrightarrow>
     r = Inl (AttributeError ''str'' ''step'')"
  by (auto simp: training_step_def Let_def)

lemma run_batch_eval:
  "\<not> training w \<Longrightarrow> fst (run_batch lib c b w l) = w"
  by (simp add: run_batch_def training_step_eval Let_def)

lemma run_batch_frame:
  "run_batch lib c b w l = (w', r) \<Longrightarrow>
     training w' = training w \<and> ticks w' = ticks w \<and> logged w' = logged w \<and>
     results w' = results w \<and> checkpoints w' = checkpoints w \<and> artifacts w' = artifacts w"
  by (auto simp: run_batch_def Let_def split: prod.splits sum.splits if_splits
      dest: training_step_frame)

lemma run_batch_error:
  "run_batch lib c b w l = (w', Inl e) \<Longrightarrow>
     e = AttributeError ''str'' ''step'' \<and> training w \<and> (\<exists>s. optimizer c = OptimizerName s)"
  by (auto simp: run_batch_def Let_def split: prod.splits sum.splits if_splits
      dest: training_step_error)

lemma run_batch_name:
  "training w \<Longrightarrow> optimizer c = OptimizerName s \<Longrightarrow> run_batch lib c b w l = (w', r) \<Longrightarrow>
     r = Inl (AttributeError ''str'' ''step'')"
  by (auto simp: run_batch_def Let_def split: prod.splits sum.splits if_splits
      dest: training_step_name)

lemma run_batch_ok:
  assumes "run_batch lib c b w l = (w', Inr l')"
  shows "x_last l' = Bound (fst b)"
  using assms
  by (auto simp: run_batch_def Let_def split: prod.splits sum.splits if_splits)

lemma run_batch_bound:
  "\<forall>s. optimizer c \<noteq> OptimizerName s \<Longrightarrow> run_batch lib c b w l = (w', r) \<Longrightarrow> \<exists>l'. r = Inr l'"
  by (auto simp: run_batch_def Let_def split: prod.splits sum.splits if_splits
      dest: training_step_bound)

lemma run_batches_eval:
  "\<not> training w \<Longrightarrow> fst (run_batches lib c bs w l) = w"
proof (induction bs arbitrary: l)
  case Nil
  show ?case by simp
next
  case (Cons b bs)
  from Cons.prems have "fst (run_batch lib c b w l) = w"
    by (rule run_batch_eval)
  with Cons show ?case
    by (auto split: prod.splits sum.splits)
qed

lemma run_batches_frame:
  "run_batches lib c bs w l = (w', r) \<Longrightarrow>
     training w' = training w \<and> ticks w' = ticks w \<and> logged w' = logged w \<and>
     results w' = results w \<and> checkpoints w' = checkpoints w \<and> artifacts w' = artifacts w"
proof (induction bs arbitrary: w l)
  case Nil
  then show ?case by auto
next
  case (Cons b bs)
  obtain w1 r1 where b: "run_batch lib c b w l = (w1, r1)"
    by (cases "run_batch lib c b w l")
  note f = run_batch_frame [OF b]
  show ?case
  proof (cases r1)
    case (Inl e)
    with Cons.prems b f show ?thesis by auto
  next
    case (Inr l1)
    with Cons.prems b have "run_batches lib c bs w1 l1 = (w', r)" by simp
    from Cons.IH [OF this] f show ?thesis by simp
  qed
qed

lemma run_batches_error:
  "run_batches lib c bs w l = (w', Inl e) \<Longrightarrow> e = AttributeError ''str'' ''step''"
proof (induction bs arbitrary: w l)
  case Nil
  then show ?case by simp
next
  case (Cons b bs)
  obtain w1 r1 where b: "run_batch lib c b w l = (w1, r1)"
    by (cases "run_batch lib c b w l")
  show ?case
  proof (cases r1)
    case (Inl e1)
    with Cons.prems b have "e1 = e" by simp
    with run_batch_error [of lib c b w l w1 e1] b Inl show ?thesis by simp
  next
    case (Inr l1)
    with Cons.prems b have "run_batches lib c bs w1 l1 = (w', Inl e)" by simp
    then show ?thesis by (rule Cons.IH)
  qed
qed

lemma run_batches_ok:
  "run_batches lib c bs w l = (w', Inr l') \<Longrightarrow>
     x_last l' = (if bs = [] then x_last l else Bound (fst (last bs)))"
proof (induction bs arbitrary: w l)
  case Nil
  then show ?case by simp
next
  case (Cons b bs)
  obtain w1 r1 where b: "run_batch lib c b w l = (w1, r1)"
    by (cases "run_batch lib c b w l")
  show ?case
  proof (cases r1)
    case (Inl e1)
    with Cons.prems b show ?thesis by simp
  next
    case (Inr l1)
    with Cons.prems b have r: "run_batches lib c bs w1 l1 = (w', Inr l')" by simp
    from b Inr have "x_last l1 = Bound (fst b)" by (simp add: run_batch_ok)
    with Cons.IH [OF r] show ?thesis by simp
  qed
qed

lemma run_batches_bound:
  "\<forall>s. optimizer c \<noteq> OptimizerName s \<Longrightarrow> run_batches lib c bs w l = (w', r) \<Longrightarrow> \<exists>l'. r = Inr l'"
proof (induction bs arbitrary: w l)
  case Nil
  then show ?case by auto
next
  case (Cons b bs)
  obtain w1 r1 where b: "run_batch lib c b w l = (w1, r1)"
    by (cases "run_batch lib c b w l")
  from run_batch_bound [OF Cons.prems(1) b] obtain l1 where r1: "r1 = Inr l1"
    by blast
  with Cons.prems(2) b have "run_batches lib c bs w1 l1 = (w', r)"
    by simp
  then show ?case
    by (rule Cons.IH [OF Cons.prems(1)])
qed

lemma run_batches_name:
  "training w \<Longrightarrow> optimizer c = OptimizerName s \<Longrightarrow> bs \<noteq> [] \<Longrightarrow>
     run_batches lib c bs w l = (w', r) \<Longrightarrow> r = Inl (AttributeError ''str'' ''step'')"
  by (cases bs) (auto split: prod.splits sum.splits dest: run_batch_name)

subsection \<open>Appending to the result series\<close>

lemma append_result_frame:
  "append_result k v w = (w', r) \<Longrightarrow>
     params w' = params w \<and> training w' = training w \<and> ticks w' = ticks w \<and>
     logged w' = logged w \<and> checkpoints w' = checkpoints w \<and> artifacts w' = artifacts w \<and>
     dom (results w') = dom (results w)"
  by (auto simp: append_result_def split: option.splits if_splits)

lemma append_result_other:
  "append_result k v w = (w', r) \<Longrightarrow> k' \<noteq> k \<Longrightarrow> results w' k' = results w k'"
  by (auto simp: append_result_def split: option.splits)

lemma append_result_error:
  "append_result k v w = (w', Inl e) \<Longrightarrow> e = KeyError k \<and> results w k = None"
  by (auto simp: append_result_def split: option.splits)

lemma append_result_ok:
  "append_result k v w = (w', Inr u) \<Longrightarrow> results w k = Some s \<Longrightarrow> results w' k = Some (s @ [v])"
  by (auto simp: append_result_def split: option.splits)

lemma append_result_succeeds:
  "results w k = Some s \<Longrightarrow> snd (append_result k v w) = Inr ()"
  by (simp add: append_result_def)

lemma append_all_frame:
  "append_all kvs w = (w', r) \<Longrightarrow>
     params w' = params w \<and> training w' = training w \<and> ticks w' = ticks w \<and>
     logged w' = logged w \<and> checkpoints w' = checkpoints w \<and> artifacts w' = artifacts w \<and>
     dom (results w') = dom (results w)"
proof (induction kvs arbitrary: w)
  case Nil
  then show ?case by auto
next
  case (Cons kv kvs)
  obtain k v where kv: "kv = (k, v)" by (cases kv)
  obtain w1 r1 where a: "append_result k v w = (w1, r1)"
    by (cases "append_result k v w")
  note f = append_result_frame [OF a]
  show ?case
  proof (cases r1)
    case (Inl e)
    with Cons.prems kv a f show ?thesis by auto
  next
    case (Inr u)
    with Cons.prems kv a have "append_all kvs w1 = (w', r)" by simp
    from Cons.IH [OF this] f show ?thesis by simp
  qed
qed

lemma append_all_other:
  "append_all kvs w = (w', r) \<Longrightarrow> k' \<notin> fst ` set kvs \<Longrightarrow> results w' k' = results w k'"
proof (induction kvs arbitrary: w)
  case Nil
  then show ?case by auto
next
  case (Cons kv kvs)
  obtain k v where kv: "kv = (k, v)" by (cases kv)
  obtain w1 r1 where a: "append_result k v w = (w1, r1)"
    by (cases "append_result k v w")
  from Cons.prems(2) kv have ne: "k' \<noteq> k" and rest: "k' \<notin> fst ` set kvs" by auto
  note f = append_result_other [OF a ne]
  show ?case
  proof (cases r1)
    case (Inl e)
    with Cons.prems kv a f show ?thesis by auto
  next
    case (Inr u)
    with Cons.prems kv a have "append_all kvs w1 = (w', r)" by simp
    from Cons.IH [OF this rest] f show ?thesis by simp
  qed
qed

lemma append_all_error:
  "append_all kvs w = (w', Inl e) \<Longrightarrow> \<exists>k. e = KeyError k"
proof (induction kvs arbitrary: w)
  case Nil
  then show ?case by simp
next
  case (Cons kv kvs)
  obtain k v where kv: "kv = (k, v)" by (cases kv)
  obtain w1 r1 where a: "append_result k v w = (w1, r1)"
    by (cases "append_result k v w")
  show ?case
  proof (cases r1)
    case (Inl e1)
    with Cons.prems kv a have "e1 = e" by simp
    with append_result_error [of k v w w1 e1] a Inl show ?thesis by simp
  next
    case (Inr u)
    with Cons.prems kv a have "append_all kvs w1 = (w', Inl e)" by simp
    then show ?thesis by (rule Cons.IH)
  qed
qed

lemma append_all_ok:
  "append_all kvs w = (w', Inr u) \<Longrightarrow> results w k' = Some s \<Longrightarrow>
     results w' k' = Some (s @ map snd (filter (\<lambda>kv. fst kv = k') kvs))"
proof (induction kvs arbitrary: w s)
  case Nil
  then show ?case by simp
next
  case (Cons kv kvs)
  obtain k v where kv: "kv = (k, v)" by (cases kv)
  obtain w1 r1 where a: "append_result k v w = (w1, r1)"
    by (cases "append_result k v w")
  show ?case
  proof (cases r1)
    case (Inl e)
    with Cons.prems kv a show ?thesis by simp
  next
    case (Inr u1)
    with Cons.prems kv a have rest: "append_all kvs w1 = (w', Inr u)" by simp
    show ?thesis
    proof (cases "k' = k")
      case True
      with a Inr Cons.prems(2) have "results w1 k' = Some (s @ [v])"
        by (simp add: append_result_ok)
      from Cons.IH [OF rest this] True kv show ?thesis by simp
    next
      case False
      with a Cons.prems(2) have "results w1 k' = Some s"
        by (simp add: append_result_other)
      from Cons.IH [OF rest this] False kv show ?thesis by simp
    qed
  qed
qed

lemma append_all_succeeds:
  "fst ` set kvs \<subseteq> dom (results w) \<Longrightarrow> snd (append_all kvs w) = Inr ()"
proof (induction kvs arbitrary: w)
  case Nil
  show ?case by simp
next
  case (Cons kv kvs)
  obtain k v where kv: "kv = (k, v)" by (cases kv)
  obtain w1 r1 where a: "append_result k v w = (w1, r1)"
    by (cases "append_result k v w")
  from Cons.prems kv obtain s where "results w k = Some s" by auto
  from append_result_succeeds [OF this, of v] a have r1: "r1 = Inr ()" by simp
  from append_result_frame [OF a] Cons.prems kv have "fst ` set kvs \<subseteq> dom (results w1)"
    by auto
  from Cons.IH [OF this] kv a r1 show ?case by simp
qed

subsection \<open>One epoch\<close>

lemma select_loader_Unbound:
  "select_loader c prefix = Unbound \<longleftrightarrow> prefix \<noteq> ''training'' \<and> prefix \<noteq> ''validation''"
  by (simp add: select_loader_def)

lemma select_loader_training:
  "select_loader c ''training'' = Bound (Some (training_loader c))"
  by (simp add: select_loader_def)

lemma select_loader_validation:
  "select_loader c ''validation'' = Bound (validation_loader c)"
  by (simp add: select_loader_def)

lemma epoch_entries_keys:
  "map fst (epoch_entries lib c prefix l) =
     (if classification_metrics c
      then [prefix @ ''_accuracy'', prefix @ ''_macro_recall'', prefix @ ''_macro_precision'',
            prefix @ ''_macro_f1score'']
      else []) @ [prefix @ ''_loss'']"
  by (simp add: epoch_entries_def Let_def)

lemma epoch_entries_prefix:
  "k \<in> fst ` set (epoch_entries lib c prefix l) \<Longrightarrow> take (length prefix) k = prefix"
proof -
  assume "k \<in> fst ` set (epoch_entries lib c prefix l)"
  then have "k \<in> set (map fst (epoch_entries lib c prefix l))" by simp
  then show ?thesis
    unfolding epoch_entries_keys by (auto split: if_splits)
qed

lemma epoch_entries_loss:
  "map snd (filter (\<lambda>kv. fst kv = prefix @ ''_loss'') (epoch_entries lib c prefix l)) =
     [np_mean (running_loss l)]"
  by (simp add: epoch_entries_def Let_def)

lemma finish_epoch_append:
  assumes "finish_epoch lib c epoch prefix start l w = (w', r)"
  obtains w2 r2 where
    "append_all (epoch_entries lib c prefix l) (w\<lparr>ticks := Suc (ticks w)\<rparr>) = (w2, r2)"
    "results w' = results w2" "params w' = params w2" "training w' = training w2"
    "checkpoints w' = checkpoints w2" "artifacts w' = artifacts w2"
proof -
  obtain w2 r2 where a: "append_all (epoch_entries lib c prefix l) (w\<lparr>ticks := Suc (ticks w)\<rparr>) = (w2, r2)"
    by (cases "append_all (epoch_entries lib c prefix l) (w\<lparr>ticks := Suc (ticks w)\<rparr>)")
  have "results w' = results w2 \<and> params w' = params w2 \<and> training w' = training w2 \<and>
        checkpoints w' = checkpoints w2 \<and> artifacts w' = artifacts w2"
  proof (cases r2)
    case (Inl e)
    with assms a show ?thesis by (auto simp: finish_epoch_def Let_def)
  next
    case (Inr u)
    with assms a show ?thesis
      by (auto simp: finish_epoch_def Let_def info_def split: var.splits if_splits)
  qed
  with a that show ?thesis by blast
qed

lemma finish_epoch_frame:
  assumes "finish_epoch lib c epoch prefix start l w = (w', r)"
  shows "params w' = params w \<and> training w' = training w \<and>
         checkpoints w' = checkpoints w \<and> artifacts w' = artifacts w \<and>
         dom (results w') = dom (results w)"
proof -
  from assms obtain w2 r2 where
    a: "append_all (epoch_entries lib c prefix l) (w\<lparr>ticks := Suc (ticks w)\<rparr>) = (w2, r2)" and
    f: "results w' = results w2" "params w' = params w2" "training w' = training w2"
       "checkpoints w' = checkpoints w2" "artifacts w' = artifacts w2"
    by (rule finish_epoch_append)
  from append_all_frame [OF a] f show ?thesis by simp
qed

lemma finish_epoch_other:
  assumes "finish_epoch lib c epoch prefix start l w = (w', r)"
    and "take (length prefix) k \<noteq> prefix"
  shows "results w' k = results w k"
proof -
  from assms(1) obtain w2 r2 where
    a: "append_all (epoch_entries lib c prefix l) (w\<lparr>ticks := Suc (ticks w)\<rparr>) = (w2, r2)" and
    f: "results w' = results w2"
    by (rule finish_epoch_append)
  from assms(2) have "k \<notin> fst ` set (epoch_entries lib c prefix l)"
    using epoch_entries_prefix by blast
  from append_all_other [OF a this] f show ?thesis by simp
qed

lemma finish_epoch_error:
  assumes "finish_epoch lib c epoch prefix start l w = (w', Inl e)"
  shows "(\<exists>k. e = KeyError k) \<or> e = NameError ''x''"
proof -
  obtain w2 r2 where a: "append_all (epoch_entries lib c prefix l) (w\<lparr>ticks := Suc (ticks w)\<rparr>) = (w2, r2)"
    by (cases "append_all (epoch_entries lib c prefix l) (w\<lparr>ticks := Suc (ticks w)\<rparr>)")
  show ?thesis
  proof (cases r2)
    case (Inl e2)
    with assms a have "e2 = e" by (simp add: finish_epoch_def Let_def)
    with append_all_error [of _ _ w2 e2] a Inl show ?thesis by simp
  next
    case (Inr u)
    with assms a show ?thesis
      by (auto simp: finish_epoch_def Let_def split: var.splits)
  qed
qed

lemma finish_epoch_ok:
  assumes "finish_epoch lib c epoch prefix start l w = (w', Inr (t, vr, x))"
  shows "vr = (if epochs c - 1 = epoch \<and> prefix = ''validation''
               then Some (y_true l, hard_labels lib (y_pred l)) else None) \<and>
         x_last l = Bound x"
proof -
  obtain w2 r2 where a: "append_all (epoch_entries lib c prefix l) (w\<lparr>ticks := Suc (ticks w)\<rparr>) = (w2, r2)"
    by (cases "append_all (epoch_entries lib c prefix l) (w\<lparr>ticks := Suc (ticks w)\<rparr>)")
  from assms a show ?thesis
    by (cases r2) (auto simp: finish_epoch_def Let_def split: var.splits)
qed

lemma finish_epoch_loss:
  assumes "finish_epoch lib c epoch prefix start l w = (w', Inr res)"
    and "results w (prefix @ ''_loss'') = Some s"
  shows "results w' (prefix @ ''_loss'') = Some (s @ [np_mean (running_loss l)])"
proof -
  from assms(1) obtain w2 r2 where
    a: "append_all (epoch_entries lib c prefix l) (w\<lparr>ticks := Suc (ticks w)\<rparr>) = (w2, r2)" and
    f: "results w' = results w2"
    by (rule finish_epoch_append)
  show ?thesis
  proof (cases r2)
    case (Inl e2)
    with assms a show ?thesis by (simp add: finish_epoch_def Let_def)
  next
    case (Inr u)
    from assms(2) have "results (w\<lparr>ticks := Suc (ticks w)\<rparr>) (prefix @ ''_loss'') = Some s"
      by simp
    from append_all_ok [OF a [unfolded Inr] this]
    have "results w2 (prefix @ ''_loss'') = Some (s @ [np_mean (running_loss l)])"
      by (simp only: epoch_entries_loss)
    with f show ?thesis by simp
  qed
qed

lemma finish_epoch_succeeds:
  assumes "fst ` set (epoch_entries lib c prefix l) \<subseteq> dom (results w)"
  shows "snd (finish_epoch lib c epoch prefix start l w) =
           (case x_last l of
              Unbound \<Rightarrow> Inl (NameError ''x'')
            | Bound x \<Rightarrow>
                Inr (time_time lib (ticks w) - start,
                     if epochs c - 1 = epoch \<and> prefix = ''validation''
                     then Some (y_true l, hard_labels lib (y_pred l)) else None,
                     x))"
proof -
  obtain w2 r2 where a: "append_all (epoch_entries lib c prefix l) (w\<lparr>ticks := Suc (ticks w)\<rparr>) = (w2, r2)"
    by (cases "append_all (epoch_entries lib c prefix l) (w\<lparr>ticks := Suc (ticks w)\<rparr>)")
  from assms have "fst ` set (epoch_entries lib c prefix l) \<subseteq> dom (results (w\<lparr>ticks := Suc (ticks w)\<rparr>))"
    by simp
  from append_all_succeeds [OF this] a have "r2 = Inr ()" by simp
  with a show ?thesis
    by (simp add: finish_epoch_def Let_def split: var.splits)
qed

lemma run_epoch_cases:
  obtains
    (unbound) "select_loader c prefix = Unbound"
      "run_epoch lib c epoch prefix w = (w\<lparr>ticks := Suc (ticks w)\<rparr>, Inl (NameError ''data_loader''))"
  | (none) "select_loader c prefix = Bound None"
      "run_epoch lib c epoch prefix w =
         (w\<lparr>ticks := Suc (ticks w)\<rparr>, Inl (TypeError ''NoneType object is not iterable''))"
  | (batch_error) batches w1 e where "select_loader c prefix = Bound (Some batches)"
      "run_batches lib c batches (w\<lparr>ticks := Suc (ticks w)\<rparr>) init_locals = (w1, Inl e)"
      "run_epoch lib c epoch prefix w = (w1, Inl e)"
  | (finish) batches w1 l where "select_loader c prefix = Bound (Some batches)"
      "run_batches lib c batches (w\<lparr>ticks := Suc (ticks w)\<rparr>) init_locals = (w1, Inr l)"
      "run_epoch lib c epoch prefix w =
         finish_epoch lib c epoch prefix (time_time lib (ticks w)) l w1"
proof (cases "select_loader c prefix")
  case Unbound
  then show ?thesis using unbound by (simp add: run_epoch_def Let_def)
next
  case (Bound d)
  show ?thesis
  proof (cases d)
    case None
    with Bound show ?thesis using none by (simp add: run_epoch_def Let_def)
  next
    case (Some batches)
    obtain w1 r1 where b: "run_batches lib c batches (w\<lparr>ticks := Suc (ticks w)\<rparr>) init_locals = (w1, r1)"
      by (cases "run_batches lib c batches (w\<lparr>ticks := Suc (ticks w)\<rparr>) init_locals")
    show ?thesis
    proof (cases r1)
      case (Inl e)
      with Bound Some b show ?thesis using batch_error by (simp add: run_epoch_def Let_def)
    next
      case (Inr l)
      with Bound Some b show ?thesis using finish by (simp add: run_epoch_def Let_def)
    qed
  qed
qed

lemma run_epoch_frame:
  assumes "run_epoch lib c epoch prefix w = (w', r)"
  shows "training w' = training w \<and> checkpoints w' = checkpoints w \<and>
         artifacts w' = artifacts w \<and> dom (results w') = dom (results w)"
proof (cases rule: run_epoch_cases [of c prefix lib epoch w])
  case unbound
  with assms show ?thesis by auto
next
  case none
  with assms show ?thesis by auto
next
  case (batch_error batches w1 e)
  from run_batches_frame [OF batch_error(2)] batch_error(3) assms show ?thesis by auto
next
  case (finish batches w1 l)
  from finish(3) assms have "finish_epoch lib c epoch prefix (time_time lib (ticks w)) l w1 = (w', r)"
    by simp
  from finish_epoch_frame [OF this] run_batches_frame [OF finish(2)] show ?thesis by simp
qed

lemma run_epoch_other:
  assumes "run_epoch lib c epoch prefix w = (w', r)"
    and "take (length prefix) k \<noteq> prefix"
  shows "results w' k = results w k"
proof (cases rule: run_epoch_cases [of c prefix lib epoch w])
  case unbound
  with assms show ?thesis by auto
next
  case none
  with assms show ?thesis by auto
next
  case (batch_error batches w1 e)
  from run_batches_frame [OF batch_error(2)] batch_error(3) assms show ?thesis by auto
next
  case (finish batches w1 l)
  from finish(3) assms have "finish_epoch lib c epoch prefix (time_time lib (ticks w)) l w1 = (w', r)"
    by simp
  from finish_epoch_other [OF this assms(2)] run_batches_frame [OF finish(2)] show ?thesis by simp
qed

lemma run_epoch_loss:
  assumes "run_epoch lib c epoch prefix w = (w', Inr res)"
    and "results w (prefix @ ''_loss'') = Some s"
  shows "\<exists>v. results w' (prefix @ ''_loss'') = Some (s @ [v])"
proof (cases rule: run_epoch_cases [of c prefix lib epoch w])
  case unbound
  with assms show ?thesis by auto
next
  case none
  with assms show ?thesis by auto
next
  case (batch_error batches w1 e)
  with assms show ?thesis by auto
next
  case (finish batches w1 l)
  from finish(3) assms have f: "finish_epoch lib c epoch prefix (time_time lib (ticks w)) l w1 = (w', Inr res)"
    by simp
  from run_batches_frame [OF finish(2)] assms(2) have "results w1 (prefix @ ''_loss'') = Some s"
    by simp
  from finish_epoch_loss [OF f this] show ?thesis by blast
qed

text \<open>
  Claim C5. A \<^verbatim>\<open>run_epoch\<close> call made while the model is in evaluation mode leaves the
  parameters (with their gradients and the optimizer's state) as they were, whatever the
  loader yields and whether or not the call returns: no backward pass, optimizer step or
  gradient reset is performed.
\<close>

theorem run_epoch_eval_keeps_params:
  assumes "\<not> training w"
  shows "params (fst (run_epoch lib c epoch prefix w)) = params w"
proof (cases rule: run_epoch_cases [of c prefix lib epoch w])
  case unbound
  then show ?thesis by simp
next
  case none
  then show ?thesis by simp
next
  case (batch_error batches w1 e)
  from assms have "fst (run_batches lib c batches (w\<lparr>ticks := Suc (ticks w)\<rparr>) init_locals) =
      w\<lparr>ticks := Suc (ticks w)\<rparr>"
    by (simp add: run_batches_eval)
  with batch_error show ?thesis by simp
next
  case (finish batches w1 l)
  from assms have "fst (run_batches lib c batches (w\<lparr>ticks := Suc (ticks w)\<rparr>) init_locals) =
      w\<lparr>ticks := Suc (ticks w)\<rparr>"
    by (simp add: run_batches_eval)
  with finish(2) have w1: "params w1 = params w" by simp
  obtain w' r where f: "finish_epoch lib c epoch prefix (time_time lib (ticks w)) l w1 = (w', r)"
    by (cases "finish_epoch lib c epoch prefix (time_time lib (ticks w)) l w1")
  from finish_epoch_frame [OF f] w1 finish(3) f show ?thesis by simp
qed

text \<open>The theorem on a validation pass over two batches, in evaluation mode: the call
  returns and the parameter is still 0, although a training step would have changed it.\<close>

theorem run_epoch_eval_keeps_params_witness:
  "\<not> training (example_world\<lparr>results := [''validation_loss'' \<mapsto> []]\<rparr>) \<and>
   snd (run_epoch example_library (example_config\<lparr>validation_loader := Some [(3, 4), (5, 6)]\<rparr>)
          0 ''validation'' (example_world\<lparr>results := [''validation_loss'' \<mapsto> []]\<rparr>)) =
     Inr (1, None, 5) \<and>
   params (fst (run_epoch example_library
                  (example_config\<lparr>validation_loader := Some [(3, 4), (5, 6)]\<rparr>)
                  0 ''validation'' (example_world\<lparr>results := [''validation_loss'' \<mapsto> []]\<rparr>))) = 0"
proof -
  have eval: "\<not> training (example_world\<lparr>results := [''validation_loss'' \<mapsto> []]\<rparr>)"
    by (simp add: example_world_def)
  have ret: "snd (run_epoch example_library
                    (example_config\<lparr>validation_loader := Some [(3, 4), (5, 6)]\<rparr>)
                    0 ''validation'' (example_world\<lparr>results := [''validation_loss'' \<mapsto> []]\<rparr>)) =
               Inr (1, None, 5)"
    by (simp add: run_epoch_def select_loader_def init_locals_def run_batch_def training_step_def
        finish_epoch_def epoch_entries_def hard_labels_def append_result_def info_def to_track_def
        example_library_def example_config_def example_args_def example_world_def Let_def)
  from run_epoch_eval_keeps_params [OF eval] eval ret show ?thesis
    by (simp add: example_world_def)
qed

text \<open>
  Claim C6. When \<^verbatim>\<open>run_epoch\<close> returns, the snapshot it returns is present exactly when
  \<^verbatim>\<open>epoch == config.epochs - 1\<close> and the prefix is \<^verbatim>\<open>"validation"\<close>; it is then the pair
  of the true labels and the predictions that the batch loop accumulated, and \<^verbatim>\<open>None\<close> in
  every other case.
\<close>

theorem run_epoch_snapshot:
  assumes "run_epoch lib c epoch prefix w = (w', Inr (t, vr, x))"
  shows "(vr \<noteq> None \<longleftrightarrow> epochs c - 1 = epoch \<and> prefix = ''validation'') \<and>
         (\<exists>batches w1 l.
            select_loader c prefix = Bound (Some batches) \<and>
            run_batches lib c batches (w\<lparr>ticks := Suc (ticks w)\<rparr>) init_locals = (w1, Inr l) \<and>
            vr = (if epochs c - 1 = epoch \<and> prefix = ''validation''
                  then Some (y_true l, hard_labels lib (y_pred l)) else None))"
proof (cases rule: run_epoch_cases [of c prefix lib epoch w])
  case unbound
  with assms show ?thesis by simp
next
  case none
  with assms show ?thesis by simp
next
  case (batch_error batches w1 e)
  with assms show ?thesis by simp
next
  case (finish batches w1 l)
  from finish(3) assms
  have "finish_epoch lib c epoch prefix (time_time lib (ticks w)) l w1 = (w', Inr (t, vr, x))"
    by simp
  from finish_epoch_ok [OF this]
  have vr: "vr = (if epochs c - 1 = epoch \<and> prefix = ''validation''
                  then Some (y_true l, hard_labels lib (y_pred l)) else None)"
    by simp
  then have "vr \<noteq> None \<longleftrightarrow> epochs c - 1 = epoch \<and> prefix = ''validation''"
    by simp
  with finish(1,2) vr show ?thesis by blast
qed

text \<open>The theorem on the last validation pass of three epochs, with classification
  metrics: the snapshot is the pair of the label 4 and the prediction 3.\<close>

theorem run_epoch_snapshot_witness:
  "snd (run_epoch example_library (example_config\<lparr>classification_metrics := True\<rparr>) 2
          ''validation''
          (example_world\<lparr>results :=
             init_results (to_track (example_config\<lparr>classification_metrics := True\<rparr>)) Map.empty\<rparr>)) =
     Inr (1, Some ([4], [3]), 3) \<and>
   epochs (example_config\<lparr>classification_metrics := True\<rparr>) - 1 = 2"
proof -
  have ret: "snd (run_epoch example_library (example_config\<lparr>classification_metrics := True\<rparr>) 2
          ''validation''
          (example_world\<lparr>results :=
             init_results (to_track (example_config\<lparr>classification_metrics := True\<rparr>)) Map.empty\<rparr>)) =
     Inr (1, Some ([4], [3]), 3)"
    by (simp add: run_epoch_def select_loader_def init_locals_def run_batch_def training_step_def
        finish_epoch_def epoch_entries_def hard_labels_def append_result_def info_def to_track_def
        example_library_def example_config_def example_args_def example_world_def Let_def)
  then have "run_epoch example_library (example_config\<lparr>classification_metrics := True\<rparr>) 2
          ''validation''
          (example_world\<lparr>results :=
             init_results (to_track (example_config\<lparr>classification_metrics := True\<rparr>)) Map.empty\<rparr>) =
     (fst (run_epoch example_library (example_config\<lparr>classification_metrics := True\<rparr>) 2
          ''validation''
          (example_world\<lparr>results :=
             init_results (to_track (example_config\<lparr>classification_metrics := True\<rparr>)) Map.empty\<rparr>)),
      Inr (1, Some ([4], [3]), 3))"
    by (simp add: prod_eq_iff)
  from run_epoch_snapshot [OF this] ret show ?thesis
    by (simp add: example_config_def example_args_def)
qed

text \<open>
  Claim C10. \<^verbatim>\<open>run_epoch\<close> raises the \<^verbatim>\<open>NameError\<close> for \<^verbatim>\<open>data_loader\<close> exactly when
  the prefix is neither \<^verbatim>\<open>"training"\<close> nor \<^verbatim>\<open>"validation"\<close>: with any other prefix no
  loader is assigned and the call never returns a result, and with one of the two the
  branch is not reached.
\<close>

theorem run_epoch_data_loader:
  "snd (run_epoch lib c epoch prefix w) = Inl (NameError ''data_loader'') \<longleftrightarrow>
     prefix \<noteq> ''training'' \<and> prefix \<noteq> ''validation''"
proof (cases rule: run_epoch_cases [of c prefix lib epoch w])
  case unbound
  from unbound(1) have "prefix \<noteq> ''training'' \<and> prefix \<noteq> ''validation''"
    by (rule iffD1 [OF select_loader_Unbound])
  with unbound(2) show ?thesis by simp
next
  case none
  from none(1) have "select_loader c prefix \<noteq> Unbound" by simp
  then have "\<not> (prefix \<noteq> ''training'' \<and> prefix \<noteq> ''validation'')"
    using iffD2 [OF select_loader_Unbound, of prefix c] by blast
  with none(2) show ?thesis by simp
next
  case (batch_error batches w1 e)
  from batch_error(1) have "select_loader c prefix \<noteq> Unbound" by simp
  then have s: "\<not> (prefix \<noteq> ''training'' \<and> prefix \<noteq> ''validation'')"
    using iffD2 [OF select_loader_Unbound, of prefix c] by blast
  from run_batches_error [OF batch_error(2)] have "e \<noteq> NameError ''data_loader''" by simp
  with batch_error(3) s show ?thesis by simp
next
  case (finish batches w1 l)
  from finish(1) have "select_loader c prefix \<noteq> Unbound" by simp
  then have s: "\<not> (prefix \<noteq> ''training'' \<and> prefix \<noteq> ''validation'')"
    using iffD2 [OF select_loader_Unbound, of prefix c] by blast
  obtain w' r where f: "finish_epoch lib c epoch prefix (time_time lib (ticks w)) l w1 = (w', r)"
    by (cases "finish_epoch lib c epoch prefix (time_time lib (ticks w)) l w1")
  have "r \<noteq> Inl (NameError ''data_loader'')"
  proof
    assume "r = Inl (NameError ''data_loader'')"
    with f finish_epoch_error [of lib c epoch prefix _ l w1 w' "NameError ''data_loader''"]
    show False by simp
  qed
  with finish(3) f s show ?thesis by simp
qed

text \<open>The theorem at the prefix \<^verbatim>\<open>"test"\<close>.\<close>

theorem run_epoch_data_loader_witness:
  "snd (run_epoch example_library example_config 0 ''test'' example_world) =
     Inl (NameError ''data_loader'')"
  using run_epoch_data_loader [of example_library example_config 0 "''test''" example_world]
  by simp

subsection \<open>The stages of one epoch of \<^verbatim>\<open>train\<close>\<close>

lemma save_checkpoint_results:
  "save_checkpoint t l w = (w', r) \<Longrightarrow> results w' = results w \<and> artifacts w' = artifacts w"
  by (auto simp: save_checkpoint_def split: var.splits)

lemma save_checkpoint_ok:
  "save_checkpoint t l w = (w', Inr u) \<Longrightarrow>
     \<exists>ck. checkpoints w' = checkpoints w @ [ck] \<and> ck_tag ck = t"
  by (auto simp: save_checkpoint_def split: var.splits)

lemma save_checkpoint_error:
  "save_checkpoint t l w = (w', Inl e) \<Longrightarrow> checkpoints w' = checkpoints w"
  by (auto simp: save_checkpoint_def split: var.splits)

lemma save_checkpoint_Unbound:
  "validation_result l = Unbound \<Longrightarrow>
     save_checkpoint t l w = (w, Inl (NameError ''validation_result''))"
  by (simp add: save_checkpoint_def)

lemma checkpoint_at_results:
  "checkpoint_at c epoch l w = (w', r) \<Longrightarrow> results w' = results w \<and> artifacts w' = artifacts w"
  by (auto simp: checkpoint_at_def split: option.splits if_splits dest: save_checkpoint_results)

lemma checkpoint_at_ok:
  "checkpoint_at c epoch l w = (w', Inr u) \<Longrightarrow>
     \<exists>cs. checkpoints w' = checkpoints w @ cs \<and>
          map ck_tag cs =
            (case checkpoint_epochs c of
               None \<Rightarrow> []
             | Some ce \<Rightarrow> if epoch \<in> set ce then [AtEpoch epoch] else [])"
  by (auto simp: checkpoint_at_def split: option.splits if_splits dest: save_checkpoint_ok)

lemma checkpoint_at_error:
  "checkpoint_at c epoch l w = (w', Inl e) \<Longrightarrow> checkpoints w' = checkpoints w"
  by (auto simp: checkpoint_at_def split: option.splits if_splits dest: save_checkpoint_error)

lemma checkpoint_at_Unbound:
  "validation_result l = Unbound \<Longrightarrow>
     checkpoint_at c epoch l w =
       (w, case checkpoint_epochs c of
             None \<Rightarrow> Inr ()
           | Some ce \<Rightarrow> if epoch \<in> set ce then Inl (NameError ''validation_result'') else Inr ())"
  by (simp add: checkpoint_at_def save_checkpoint_Unbound split: option.splits)

lemma validate_cases:
  obtains
    (no_loader) "validation_loader c = None" "validate lib c epoch l w = (w, Inr l)"
  | (failed) w1 e where "validation_loader c \<noteq> None"
      "run_epoch lib c epoch ''validation'' (w\<lparr>training := False\<rparr>) = (w1, Inl e)"
      "validate lib c epoch l w = (w1, Inl e)"
  | (returned) w1 t vr x where "validation_loader c \<noteq> None"
      "run_epoch lib c epoch ''validation'' (w\<lparr>training := False\<rparr>) = (w1, Inr (t, vr, x))"
      "validate lib c epoch l w = (w1, Inr (l\<lparr>validation_result := Bound vr\<rparr>))"
proof (cases "validation_loader c = None")
  case True
  then show ?thesis using no_loader by (simp add: validate_def)
next
  case False
  obtain w1 r1 where r: "run_epoch lib c epoch ''validation'' (w\<lparr>training := False\<rparr>) = (w1, r1)"
    by (cases "run_epoch lib c epoch ''validation'' (w\<lparr>training := False\<rparr>)")
  show ?thesis
  proof (cases r1)
    case (Inl e)
    with False r show ?thesis using failed by (simp add: validate_def)
  next
    case (Inr res)
    obtain t vr x where "res = (t, vr, x)" by (cases res)
    with Inr False r show ?thesis using returned by (simp add: validate_def)
  qed
qed

lemma validate_frame:
  assumes "validate lib c epoch l w = (w', r)"
  shows "checkpoints w' = checkpoints w \<and> artifacts w' = artifacts w \<and>
         dom (results w') = dom (results w)"
proof (cases rule: validate_cases [of c lib epoch l w])
  case no_loader
  with assms show ?thesis by simp
next
  case (failed w1 e)
  from run_epoch_frame [OF failed(2)] failed(3) assms show ?thesis by auto
next
  case (returned w1 t vr x)
  from run_epoch_frame [OF returned(2)] returned(3) assms show ?thesis by auto
qed

lemma validate_other:
  assumes "validate lib c epoch l w = (w', r)" and "take (length ''validation'') k \<noteq> ''validation''"
  shows "results w' k = results w k"
proof (cases rule: validate_cases [of c lib epoch l w])
  case no_loader
  with assms show ?thesis by simp
next
  case (failed w1 e)
  from run_epoch_other [OF failed(2) assms(2)] failed(3) assms show ?thesis by auto
next
  case (returned w1 t vr x)
  from run_epoch_other [OF returned(2) assms(2)] returned(3) assms show ?thesis by auto
qed

lemma validate_loss:
  assumes "validate lib c epoch l w = (w', Inr l')" and "validation_loader c \<noteq> None"
    and "results w ''validation_loss'' = Some s"
  shows "\<exists>v. results w' ''validation_loss'' = Some (s @ [v])"
proof (cases rule: validate_cases [of c lib epoch l w])
  case no_loader
  with assms show ?thesis by simp
next
  case (failed w1 e)
  with assms show ?thesis by simp
next
  case (returned w1 t vr x)
  from assms(3) have "results (w\<lparr>training := False\<rparr>) (''validation'' @ ''_loss'') = Some s"
    by simp
  from run_epoch_loss [OF returned(2) this] returned(3) assms(1) show ?thesis by auto
qed

lemma train_epoch_cases:
  obtains
    (training_failed) w1 e where
      "run_epoch lib c epoch ''training'' (w\<lparr>training := True\<rparr>) = (w1, Inl e)"
      "train_epoch lib c epoch w l = (w1, Inl e)"
  | (validation_failed) w1 t vr x w2 e where
      "run_epoch lib c epoch ''training'' (w\<lparr>training := True\<rparr>) = (w1, Inr (t, vr, x))"
      "validate lib c epoch
         (l\<lparr>x_sample := Bound (first_row lib x), time_training := time_training l + t\<rparr>) w1 =
         (w2, Inl e)"
      "train_epoch lib c epoch w l = (w2, Inl e)"
  | (append_failed) w1 t vr x w2 l2 w3 e where
      "run_epoch lib c epoch ''training'' (w\<lparr>training := True\<rparr>) = (w1, Inr (t, vr, x))"
      "validate lib c epoch
         (l\<lparr>x_sample := Bound (first_row lib x), time_training := time_training l + t\<rparr>) w1 =
         (w2, Inr l2)"
      "append_all [(''epoch'', IntV (epoch + 1)), (''epoch_time'', FloatV t)] w2 = (w3, Inl e)"
      "train_epoch lib c epoch w l = (w3, Inl e)"
  | (checkpoint_failed) w1 t vr x w2 l2 w3 w4 e where
      "run_epoch lib c epoch ''training'' (w\<lparr>training := True\<rparr>) = (w1, Inr (t, vr, x))"
      "validate lib c epoch
         (l\<lparr>x_sample := Bound (first_row lib x), time_training := time_training l + t\<rparr>) w1 =
         (w2, Inr l2)"
      "append_all [(''epoch'', IntV (epoch + 1)), (''epoch_time'', FloatV t)] w2 = (w3, Inr ())"
      "checkpoint_at c epoch l2 w3 = (w4, Inl e)"
      "train_epoch lib c epoch w l = (w4, Inl e)"
  | (completed) w1 t vr x w2 l2 w3 w4 where
      "run_epoch lib c epoch ''training'' (w\<lparr>training := True\<rparr>) = (w1, Inr (t, vr, x))"
      "validate lib c epoch
         (l\<lparr>x_sample := Bound (first_row lib x), time_training := time_training l + t\<rparr>) w1 =
         (w2, Inr l2)"
      "append_all [(''epoch'', IntV (epoch + 1)), (''epoch_time'', FloatV t)] w2 = (w3, Inr ())"
      "checkpoint_at c epoch l2 w3 = (w4, Inr ())"
      "train_epoch lib c epoch w l = (w4, Inr l2)"
proof -
  obtain w1 r1 where s1: "run_epoch lib c epoch ''training'' (w\<lparr>training := True\<rparr>) = (w1, r1)"
    by (cases "run_epoch lib c epoch ''training'' (w\<lparr>training := True\<rparr>)")
  show ?thesis
  proof (cases r1)
    case (Inl e)
    with s1 show ?thesis using training_failed by (simp add: train_epoch_def)
  next
    case (Inr res)
    obtain t vr x where res: "res = (t, vr, x)" by (cases res)
    obtain w2 r2 where s2: "validate lib c epoch
         (l\<lparr>x_sample := Bound (first_row lib x), time_training := time_training l + t\<rparr>) w1 =
         (w2, r2)"
      by (cases "validate lib c epoch
         (l\<lparr>x_sample := Bound (first_row lib x), time_training := time_training l + t\<rparr>) w1")
    show ?thesis
    proof (cases r2)
      case (Inl e)
      with s1 Inr res s2 show ?thesis using validation_failed
        by (simp add: train_epoch_def Let_def)
    next
      case r2: (Inr l2)
      obtain w3 r3 where
        s3: "append_all [(''epoch'', IntV (epoch + 1)), (''epoch_time'', FloatV t)] w2 = (w3, r3)"
        by (cases "append_all [(''epoch'', IntV (epoch + 1)), (''epoch_time'', FloatV t)] w2")
      show ?thesis
      proof (cases r3)
        case (Inl e)
        with s1 Inr res s2 r2 s3 show ?thesis using append_failed
          by (simp add: train_epoch_def Let_def)
      next
        case r3: (Inr u)
        obtain w4 r4 where s4: "checkpoint_at c epoch l2 w3 = (w4, r4)"
          by (cases "checkpoint_at c epoch l2 w3")
        show ?thesis
        proof (cases r4)
          case (Inl e)
          with s1 Inr res s2 r2 s3 r3 s4 show ?thesis using checkpoint_failed
            by (simp add: train_epoch_def Let_def)
        next
          case (Inr u4)
          with s1 \<open>r1 = Inr res\<close> res s2 r2 s3 r3 s4 show ?thesis using completed
            by (simp add: train_epoch_def Let_def)
        qed
      qed
    qed
  qed
qed

lemma train_epoch_frame:
  assumes "train_epoch lib c epoch w l = (w', r)"
  shows "dom (results w') = dom (results w) \<and> artifacts w' = artifacts w"
proof (cases rule: train_epoch_cases [of lib c epoch w l])
  case (training_failed w1 e)
  from run_epoch_frame [OF training_failed(1)] training_failed(2) assms show ?thesis by auto
next
  case (validation_failed w1 t vr x w2 e)
  from run_epoch_frame [OF validation_failed(1)] validate_frame [OF validation_failed(2)]
    validation_failed(3) assms
  show ?thesis by auto
next
  case (append_failed w1 t vr x w2 l2 w3 e)
  from run_epoch_frame [OF append_failed(1)] validate_frame [OF append_failed(2)]
    append_all_frame [OF append_failed(3)] append_failed(4) assms
  show ?thesis by auto
next
  case (checkpoint_failed w1 t vr x w2 l2 w3 w4 e)
  from run_epoch_frame [OF checkpoint_failed(1)] validate_frame [OF checkpoint_failed(2)]
    append_all_frame [OF checkpoint_failed(3)] checkpoint_at_results [OF checkpoint_failed(4)]
    checkpoint_failed(5) assms
  show ?thesis by auto
next
  case (completed w1 t vr x w2 l2 w3 w4)
  from run_epoch_frame [OF completed(1)] validate_frame [OF completed(2)]
    append_all_frame [OF completed(3)] checkpoint_at_results [OF completed(4)]
    completed(5) assms
  show ?thesis by auto
qed

lemma train_epoch_error:
  assumes "train_epoch lib c epoch w l = (w', Inl e)"
  shows "checkpoints w' = checkpoints w"
proof (cases rule: train_epoch_cases [of lib c epoch w l])
  case (training_failed w1 e)
  from run_epoch_frame [OF training_failed(1)] training_failed(2) assms show ?thesis by auto
next
  case (validation_failed w1 t vr x w2 e)
  from run_epoch_frame [OF validation_failed(1)] validate_frame [OF validation_failed(2)]
    validation_failed(3) assms
  show ?thesis by auto
next
  case (append_failed w1 t vr x w2 l2 w3 e)
  from run_epoch_frame [OF append_failed(1)] validate_frame [OF append_failed(2)]
    append_all_frame [OF append_failed(3)] append_failed(4) assms
  show ?thesis by auto
next
  case (checkpoint_failed w1 t vr x w2 l2 w3 w4 e)
  from run_epoch_frame [OF checkpoint_failed(1)] validate_frame [OF checkpoint_failed(2)]
    append_all_frame [OF checkpoint_failed(3)] checkpoint_at_error [OF checkpoint_failed(4)]
    checkpoint_failed(5) assms
  show ?thesis by auto
next
  case (completed w1 t vr x w2 l2 w3 w4)
  with assms show ?thesis by simp
qed

lemma train_epoch_Inr:
  assumes "train_epoch lib c epoch w l = (w', Inr l')"
  obtains w1 t vr x w2 w3 where
    "run_epoch lib c epoch ''training'' (w\<lparr>training := True\<rparr>) = (w1, Inr (t, vr, x))"
    "validate lib c epoch
       (l\<lparr>x_sample := Bound (first_row lib x), time_training := time_training l + t\<rparr>) w1 =
       (w2, Inr l')"
    "append_all [(''epoch'', IntV (epoch + 1)), (''epoch_time'', FloatV t)] w2 = (w3, Inr ())"
    "checkpoint_at c epoch l' w3 = (w', Inr ())"
proof (cases rule: train_epoch_cases [of lib c epoch w l])
  case (training_failed w1 e)
  with assms show ?thesis by simp
next
  case (validation_failed w1 t vr x w2 e)
  with assms show ?thesis by simp
next
  case (append_failed w1 t vr x w2 l2 w3 e)
  with assms show ?thesis by simp
next
  case (checkpoint_failed w1 t vr x w2 l2 w3 w4 e)
  with assms show ?thesis by simp
next
  case (completed w1 t vr x w2 l2 w3 w4)
  from completed(5) assms have "w4 = w'" and "l2 = l'" by simp_all
  with completed(1-4) that show ?thesis by blast
qed

lemma train_epoch_checkpoints:
  assumes "train_epoch lib c epoch w l = (w', Inr l')"
  shows "\<exists>cs. checkpoints w' = checkpoints w @ cs \<and>
              map ck_tag cs =
                (case checkpoint_epochs c of
                   None \<Rightarrow> []
                 | Some ce \<Rightarrow> if epoch \<in> set ce then [AtEpoch epoch] else [])"
proof -
  from assms obtain w1 t vr x w2 w3 where
    s1: "run_epoch lib c epoch ''training'' (w\<lparr>training := True\<rparr>) = (w1, Inr (t, vr, x))" and
    s2: "validate lib c epoch
       (l\<lparr>x_sample := Bound (first_row lib x), time_training := time_training l + t\<rparr>) w1 =
       (w2, Inr l')" and
    s3: "append_all [(''epoch'', IntV (epoch + 1)), (''epoch_time'', FloatV t)] w2 = (w3, Inr ())" and
    s4: "checkpoint_at c epoch l' w3 = (w', Inr ())"
    by (rule train_epoch_Inr)
  from run_epoch_frame [OF s1] validate_frame [OF s2] append_all_frame [OF s3]
  have "checkpoints w3 = checkpoints w" by simp
  with checkpoint_at_ok [OF s4] show ?thesis by simp
qed

lemma train_epoch_epoch:
  assumes "train_epoch lib c epoch w l = (w', Inr l')"
    and "results w ''epoch'' = Some s"
  shows "results w' ''epoch'' = Some (s @ [IntV (epoch + 1)])"
proof -
  from assms(1) obtain w1 t vr x w2 w3 where
    s1: "run_epoch lib c epoch ''training'' (w\<lparr>training := True\<rparr>) = (w1, Inr (t, vr, x))" and
    s2: "validate lib c epoch
       (l\<lparr>x_sample := Bound (first_row lib x), time_training := time_training l + t\<rparr>) w1 =
       (w2, Inr l')" and
    s3: "append_all [(''epoch'', IntV (epoch + 1)), (''epoch_time'', FloatV t)] w2 = (w3, Inr ())" and
    s4: "checkpoint_at c epoch l' w3 = (w', Inr ())"
    by (rule train_epoch_Inr)
  have "results w1 ''epoch'' = results w ''epoch''"
    using run_epoch_other [OF s1, of "''epoch''"] by simp
  moreover have "results w2 ''epoch'' = results w1 ''epoch''"
    using validate_other [OF s2, of "''epoch''"] by simp
  ultimately have "results w2 ''epoch'' = Some s"
    using assms(2) by simp
  from append_all_ok [OF s3 this] have "results w3 ''epoch'' = Some (s @ [IntV (epoch + 1)])"
    by simp
  with checkpoint_at_results [OF s4] show ?thesis by simp
qed

lemma train_epoch_epoch_time:
  assumes "train_epoch lib c epoch w l = (w', Inr l')"
    and "results w ''epoch_time'' = Some s"
  shows "\<exists>v. results w' ''epoch_time'' = Some (s @ [v])"
proof -
  from assms(1) obtain w1 t vr x w2 w3 where
    s1: "run_epoch lib c epoch ''training'' (w\<lparr>training := True\<rparr>) = (w1, Inr (t, vr, x))" and
    s2: "validate lib c epoch
       (l\<lparr>x_sample := Bound (first_row lib x), time_training := time_training l + t\<rparr>) w1 =
       (w2, Inr l')" and
    s3: "append_all [(''epoch'', IntV (epoch + 1)), (''epoch_time'', FloatV t)] w2 = (w3, Inr ())" and
    s4: "checkpoint_at c epoch l' w3 = (w', Inr ())"
    by (rule train_epoch_Inr)
  have "results w1 ''epoch_time'' = results w ''epoch_time''"
    using run_epoch_other [OF s1, of "''epoch_time''"] by simp
  moreover have "results w2 ''epoch_time'' = results w1 ''epoch_time''"
    using validate_other [OF s2, of "''epoch_time''"] by simp
  ultimately have "results w2 ''epoch_time'' = Some s"
    using assms(2) by simp
  from append_all_ok [OF s3 this] have "results w3 ''epoch_time'' = Some (s @ [FloatV t])"
    by simp
  with checkpoint_at_results [OF s4] show ?thesis by simp
qed

lemma train_epoch_validation_loss:
  assumes "train_epoch lib c epoch w l = (w', Inr l')"
    and "validation_loader c \<noteq> None"
    and "results w ''validation_loss'' = Some s"
  shows "\<exists>v. results w' ''validation_loss'' = Some (s @ [v])"
proof -
  from assms(1) obtain w1 t vr x w2 w3 where
    s1: "run_epoch lib c epoch ''training'' (w\<lparr>training := True\<rparr>) = (w1, Inr (t, vr, x))" and
    s2: "validate lib c epoch
       (l\<lparr>x_sample := Bound (first_row lib x), time_training := time_training l + t\<rparr>) w1 =
       (w2, Inr l')" and
    s3: "append_all [(''epoch'', IntV (epoch + 1)), (''epoch_time'', FloatV t)] w2 = (w3, Inr ())" and
    s4: "checkpoint_at c epoch l' w3 = (w', Inr ())"
    by (rule train_epoch_Inr)
  have "results w1 ''validation_loss'' = results w ''validation_loss''"
    using run_epoch_other [OF s1, of "''validation_loss''"] by simp
  with assms(3) have "results w1 ''validation_loss'' = Some s" by simp
  from validate_loss [OF s2 assms(2) this] obtain v where
    v: "results w2 ''validation_loss'' = Some (s @ [v])" by blast
  have "results w3 ''validation_loss'' = results w2 ''validation_loss''"
    using append_all_other [OF s3, of "''validation_loss''"] by simp
  with v checkpoint_at_results [OF s4] show ?thesis by simp
qed

subsection \<open>The epoch loop\<close>

lemma train_epochs_frame:
  "train_epochs lib c es w l = (w', r) \<Longrightarrow>
     dom (results w') = dom (results w) \<and> artifacts w' = artifacts w"
proof (induction es arbitrary: w l)
  case Nil
  then show ?case by auto
next
  case (Cons e es)
  obtain w1 r1 where s: "train_epoch lib c e w l = (w1, r1)"
    by (cases "train_epoch lib c e w l")
  note f = train_epoch_frame [OF s]
  show ?case
  proof (cases r1)
    case (Inl err)
    with Cons.prems s f show ?thesis by auto
  next
    case (Inr l1)
    with Cons.prems s have "train_epochs lib c es w1 l1 = (w', r)" by simp
    from Cons.IH [OF this] f show ?thesis by simp
  qed
qed

lemma train_epochs_epoch:
  "train_epochs lib c es w l = (w', Inr l') \<Longrightarrow> results w ''epoch'' = Some s \<Longrightarrow>
     results w' ''epoch'' = Some (s @ map (\<lambda>e. IntV (e + 1)) es)"
proof (induction es arbitrary: w l s)
  case Nil
  then show ?case by simp
next
  case (Cons e es)
  obtain w1 r1 where s: "train_epoch lib c e w l = (w1, r1)"
    by (cases "train_epoch lib c e w l")
  show ?case
  proof (cases r1)
    case (Inl err)
    with Cons.prems s show ?thesis by simp
  next
    case (Inr l1)
    with Cons.prems s have rest: "train_epochs lib c es w1 l1 = (w', Inr l')" by simp
    from s Inr have "train_epoch lib c e w l = (w1, Inr l1)" by simp
    from train_epoch_epoch [OF this Cons.prems(2)]
    have "results w1 ''epoch'' = Some (s @ [IntV (e + 1)])" .
    from Cons.IH [OF rest this] show ?thesis by simp
  qed
qed

lemma train_epochs_epoch_time:
  "train_epochs lib c es w l = (w', Inr l') \<Longrightarrow> results w ''epoch_time'' = Some s \<Longrightarrow>
     \<exists>vs. results w' ''epoch_time'' = Some (s @ vs) \<and> length vs = length es"
proof (induction es arbitrary: w l s)
  case Nil
  then show ?case by simp
next
  case (Cons e es)
  obtain w1 r1 where s: "train_epoch lib c e w l = (w1, r1)"
    by (cases "train_epoch lib c e w l")
  show ?case
  proof (cases r1)
    case (Inl err)
    with Cons.prems s show ?thesis by simp
  next
    case (Inr l1)
    with Cons.prems s have rest: "train_epochs lib c es w1 l1 = (w', Inr l')" by simp
    from s Inr have "train_epoch lib c e w l = (w1, Inr l1)" by simp
    from train_epoch_epoch_time [OF this Cons.prems(2)] obtain v where
      "results w1 ''epoch_time'' = Some (s @ [v])" by blast
    from Cons.IH [OF rest this] obtain vs where
      "results w' ''epoch_time'' = Some ((s @ [v]) @ vs)" and "length vs = length es" by blast
    then have "results w' ''epoch_time'' = Some (s @ (v # vs)) \<and> length (v # vs) = length (e # es)"
      by simp
    then show ?thesis by blast
  qed
qed

lemma train_epochs_validation_loss:
  "train_epochs lib c es w l = (w', Inr l') \<Longrightarrow> validation_loader c \<noteq> None \<Longrightarrow>
     results w ''validation_loss'' = Some s \<Longrightarrow>
     \<exists>vs. results w' ''validation_loss'' = Some (s @ vs) \<and> length vs = length es"
proof (induction es arbitrary: w l s)
  case Nil
  then show ?case by simp
next
  case (Cons e es)
  obtain w1 r1 where s: "train_epoch lib c e w l = (w1, r1)"
    by (cases "train_epoch lib c e w l")
  show ?case
  proof (cases r1)
    case (Inl err)
    with Cons.prems s show ?thesis by simp
  next
    case (Inr l1)
    with Cons.prems s have rest: "train_epochs lib c es w1 l1 = (w', Inr l')" by simp
    from s Inr have "train_epoch lib c e w l = (w1, Inr l1)" by simp
    from train_epoch_validation_loss [OF this Cons.prems(2,3)] obtain v where
      "results w1 ''validation_loss'' = Some (s @ [v])" by blast
    from Cons.IH [OF rest Cons.prems(2) this] obtain vs where
      "results w' ''validation_loss'' = Some ((s @ [v]) @ vs)" and "length vs = length es"
      by blast
    then have "results w' ''validation_loss'' = Some (s @ (v # vs)) \<and>
               length (v # vs) = length (e # es)"
      by simp
    then show ?thesis by blast
  qed
qed

lemma train_epochs_checkpoints:
  "train_epochs lib c es w l = (w', Inr l') \<Longrightarrow>
     \<exists>cs. checkpoints w' = checkpoints w @ cs \<and>
          map ck_tag cs =
            map AtEpoch (filter (\<lambda>e. case checkpoint_epochs c of None \<Rightarrow> False
                                       | Some ce \<Rightarrow> e \<in> set ce) es)"
proof (induction es arbitrary: w l)
  case Nil
  then show ?case by simp
next
  case (Cons e es)
  obtain w1 r1 where s: "train_epoch lib c e w l = (w1, r1)"
    by (cases "train_epoch lib c e w l")
  show ?case
  proof (cases r1)
    case (Inl err)
    with Cons.prems s show ?thesis by simp
  next
    case (Inr l1)
    with Cons.prems s have rest: "train_epochs lib c es w1 l1 = (w', Inr l')" by simp
    from s Inr have "train_epoch lib c e w l = (w1, Inr l1)" by simp
    from train_epoch_checkpoints [OF this] obtain cs1 where
      c1: "checkpoints w1 = checkpoints w @ cs1" and
      t1: "map ck_tag cs1 =
             (case checkpoint_epochs c of None \<Rightarrow> []
              | Some ce \<Rightarrow> if e \<in> set ce then [AtEpoch e] else [])"
      by blast
    from Cons.IH [OF rest] obtain cs2 where
      c2: "checkpoints w' = checkpoints w1 @ cs2" and
      t2: "map ck_tag cs2 =
             map AtEpoch (filter (\<lambda>e. case checkpoint_epochs c of None \<Rightarrow> False
                                       | Some ce \<Rightarrow> e \<in> set ce) es)"
      by blast
    from c1 c2 have "checkpoints w' = checkpoints w @ (cs1 @ cs2)" by simp
    moreover from t1 t2 have "map ck_tag (cs1 @ cs2) =
        map AtEpoch (filter (\<lambda>e. case checkpoint_epochs c of None \<Rightarrow> False
                                   | Some ce \<Rightarrow> e \<in> set ce) (e # es))"
      by (simp split: option.splits)
    ultimately show ?thesis by blast
  qed
qed

lemma train_epochs_no_checkpoints:
  "train_epochs lib c es w l = (w', r) \<Longrightarrow>
     (case checkpoint_epochs c of None \<Rightarrow> True | Some ce \<Rightarrow> set ce \<inter> set es = {}) \<Longrightarrow>
     checkpoints w' = checkpoints w"
proof (induction es arbitrary: w l)
  case Nil
  then show ?case by auto
next
  case (Cons e es)
  obtain w1 r1 where s: "train_epoch lib c e w l = (w1, r1)"
    by (cases "train_epoch lib c e w l")
  from Cons.prems(2)
  have no: "case checkpoint_epochs c of None \<Rightarrow> True | Some ce \<Rightarrow> set ce \<inter> set es = {}"
    and here: "case checkpoint_epochs c of None \<Rightarrow> True | Some ce \<Rightarrow> e \<notin> set ce"
    by (auto split: option.splits)
  show ?case
  proof (cases r1)
    case (Inl err1)
    with Cons.prems(1) s have "w1 = w'" by simp
    with s Inl train_epoch_error [of lib c e w l w1 err1] show ?thesis by simp
  next
    case (Inr l1)
    with Cons.prems s have rest: "train_epochs lib c es w1 l1 = (w', r)" by simp
    from s Inr have "train_epoch lib c e w l = (w1, Inr l1)" by simp
    from train_epoch_checkpoints [OF this] here have "checkpoints w1 = checkpoints w"
      by (auto split: option.splits)
    with Cons.IH [OF rest no] show ?thesis by simp
  qed
qed

subsection \<open>The whole run\<close>

lemma init_results_other: "n \<notin> set names \<Longrightarrow> init_results names r n = r n"
  by (induction names arbitrary: r) auto

lemma init_results_tracked: "n \<in> set names \<Longrightarrow> init_results names r n = Some []"
proof (induction names arbitrary: r)
  case Nil
  then show ?case by simp
next
  case (Cons name names)
  show ?case
  proof (cases "n \<in> set names")
    case True
    then show ?thesis by (simp add: Cons.IH)
  next
    case False
    with Cons.prems have "n = name" by simp
    with False show ?thesis by (simp add: init_results_other)
  qed
qed

lemma init_results_dom: "dom (init_results names r) = set names \<union> dom r"
  by (induction names arbitrary: r) auto

lemma to_track_always:
  "''epoch'' \<in> set (to_track c)" "''epoch_time'' \<in> set (to_track c)"
  "''training_loss'' \<in> set (to_track c)"
  by (simp_all add: to_track_def)

lemma to_track_validation_loss:
  "validation_loader c \<noteq> None \<Longrightarrow> ''validation_loss'' \<in> set (to_track c)"
  by (simp add: to_track_def)

lemma to_track_no_validation:
  "validation_loader c = None \<Longrightarrow> k \<in> set (to_track c) \<Longrightarrow>
     take (length ''validation'') k \<noteq> ''validation''"
  by (auto simp: to_track_def split: if_splits)

lemma report_classification_frame:
  "report_classification c l w = (w', r) \<Longrightarrow>
     results w' = results w \<and> checkpoints w' = checkpoints w"
  by (auto simp: report_classification_def Let_def info_def
      split: var.splits option.splits if_splits prod.splits)

lemma upto_shift: "map (\<lambda>e. e + 1) [i..j] = [i + 1..j + 1]"
proof (induction i j rule: upto.induct)
  case (1 i j)
  show ?case
  proof (cases "i \<le> j")
    case True
    then have "[i..j] = i # [i + 1..j]" and "[i + 1..j + 1] = (i + 1) # [i + 1 + 1..j + 1]"
      by (simp_all add: upto_rec1)
    with 1 True show ?thesis by simp
  next
    case False
    then show ?thesis by simp
  qed
qed

lemma train_cases:
  obtains
    (epochs_failed) w1 e where
      "train_epochs lib c [0..epochs c - 1]
         ((info (Info ''starting training'') w)\<lparr>results := init_results (to_track c) Map.empty\<rparr>)
         init_train_locals = (w1, Inl e)"
      "train lib c w = (w1, Inl e)"
  | (last_failed) w1 l w2 e where
      "train_epochs lib c [0..epochs c - 1]
         ((info (Info ''starting training'') w)\<lparr>results := init_results (to_track c) Map.empty\<rparr>)
         init_train_locals = (w1, Inr l)"
      "save_model c" "save_checkpoint Last l w1 = (w2, Inl e)"
      "train lib c w = (w2, Inl e)"
  | (report_failed) w1 l w2 w3 e where
      "train_epochs lib c [0..epochs c - 1]
         ((info (Info ''starting training'') w)\<lparr>results := init_results (to_track c) Map.empty\<rparr>)
         init_train_locals = (w1, Inr l)"
      "(if save_model c then save_checkpoint Last l w1 else (w1, Inr ())) = (w2, Inr ())"
      "classification_metrics c" "report_classification c l w2 = (w3, Inl e)"
      "train lib c w = (w3, Inl e)"
  | (completed) w1 l w2 w3 where
      "train_epochs lib c [0..epochs c - 1]
         ((info (Info ''starting training'') w)\<lparr>results := init_results (to_track c) Map.empty\<rparr>)
         init_train_locals = (w1, Inr l)"
      "(if save_model c then save_checkpoint Last l w1 else (w1, Inr ())) = (w2, Inr ())"
      "(if classification_metrics c then report_classification c l w2 else (w2, Inr ())) =
         (w3, Inr ())"
      "snd (train lib c w) = Inr ()"
      "results (fst (train lib c w)) = results w3"
      "checkpoints (fst (train lib c w)) = checkpoints w3"
proof -
  obtain w1 r1 where s1: "train_epochs lib c [0..epochs c - 1]
         ((info (Info ''starting training'') w)\<lparr>results := init_results (to_track c) Map.empty\<rparr>)
         init_train_locals = (w1, r1)"
    by (cases "train_epochs lib c [0..epochs c - 1]
         ((info (Info ''starting training'') w)\<lparr>results := init_results (to_track c) Map.empty\<rparr>)
         init_train_locals")
  show ?thesis
  proof (cases r1)
    case (Inl e)
    with s1 show ?thesis using epochs_failed by (simp add: train_def Let_def)
  next
    case r1: (Inr l)
    obtain w2 r2 where
      s2: "(if save_model c then save_checkpoint Last l w1 else (w1, Inr ())) = (w2, r2)"
      by (cases "if save_model c then save_checkpoint Last l w1 else (w1, Inr ())")
    show ?thesis
    proof (cases r2)
      case (Inl e)
      with s2 have "save_model c" and "save_checkpoint Last l w1 = (w2, Inl e)"
        by (auto split: if_splits)
      moreover from s1 r1 s2 Inl have "train lib c w = (w2, Inl e)"
        by (simp add: train_def Let_def)
      ultimately show ?thesis using last_failed s1 r1 by blast
    next
      case r2: (Inr u2)
      obtain w3 r3 where
        s3: "(if classification_metrics c then report_classification c l w2 else (w2, Inr ())) =
               (w3, r3)"
        by (cases "if classification_metrics c then report_classification c l w2
                   else (w2, Inr ())")
      show ?thesis
      proof (cases r3)
        case (Inl e)
        with s3 have "classification_metrics c" and "report_classification c l w2 = (w3, Inl e)"
          by (auto split: if_splits)
        moreover from s1 r1 s2 r2 s3 Inl have "train lib c w = (w3, Inl e)"
          by (simp add: train_def Let_def)
        moreover from s2 r2
        have "(if save_model c then save_checkpoint Last l w1 else (w1, Inr ())) = (w2, Inr ())"
          by simp
        ultimately show ?thesis using report_failed s1 r1 by blast
      next
        case r3: (Inr u3)
        from s1 r1 s2 r2 s3 r3
        have "snd (train lib c w) = Inr ()"
          and "results (fst (train lib c w)) = results w3"
          and "checkpoints (fst (train lib c w)) = checkpoints w3"
          by (simp_all add: train_def Let_def info_def)
        moreover from s2 r2
        have "(if save_model c then save_checkpoint Last l w1 else (w1, Inr ())) = (w2, Inr ())"
          by simp
        moreover from s3 r3
        have "(if classification_metrics c then report_classification c l w2 else (w2, Inr ())) =
                (w3, Inr ())"
          by simp
        ultimately show ?thesis using completed s1 r1 by blast
      qed
    qed
  qed
qed

lemma last_checkpoint_results:
  "(if save_model c then save_checkpoint Last l w1 else (w1, Inr ())) = (w2, r) \<Longrightarrow>
     results w2 = results w1"
  by (auto split: if_splits dest: save_checkpoint_results)

lemma final_report_frame:
  "(if classification_metrics c then report_classification c l w2 else (w2, Inr ())) = (w3, r) \<Longrightarrow>
     results w3 = results w2 \<and> checkpoints w3 = checkpoints w2"
  by (auto split: if_splits dest: report_classification_frame)

lemma train_completed:
  assumes "train lib c w = (w', Inr u)"
  obtains w1 l where
    "train_epochs lib c [0..epochs c - 1]
       ((info (Info ''starting training'') w)\<lparr>results := init_results (to_track c) Map.empty\<rparr>)
       init_train_locals = (w1, Inr l)"
    "results w' = results w1"
proof (cases rule: train_cases [of lib c w])
  case (epochs_failed w1 e)
  with assms show ?thesis by simp
next
  case (last_failed w1 l w2 e)
  with assms show ?thesis by simp
next
  case (report_failed w1 l w2 w3 e)
  with assms show ?thesis by simp
next
  case (completed w1 l w2 w3)
  from last_checkpoint_results [OF completed(2)] final_report_frame [OF completed(3)]
    completed(5) assms
  have "results w' = results w1" by simp
  with completed(1) that show ?thesis by blast
qed

lemma train_results_dom: "dom (results (fst (train lib c w))) = set (to_track c)"
proof -
  have start: "dom (results ((info (Info ''starting training'') w)
                 \<lparr>results := init_results (to_track c) Map.empty\<rparr>)) = set (to_track c)"
    by (simp add: init_results_dom)
  show ?thesis
  proof (cases rule: train_cases [of lib c w])
    case (epochs_failed w1 e)
    from train_epochs_frame [OF epochs_failed(1)] start epochs_failed(2) show ?thesis by simp
  next
    case (last_failed w1 l w2 e)
    from train_epochs_frame [OF last_failed(1)] start save_checkpoint_results [OF last_failed(3)]
      last_failed(4)
    show ?thesis by simp
  next
    case (report_failed w1 l w2 w3 e)
    from train_epochs_frame [OF report_failed(1)] start
      last_checkpoint_results [OF report_failed(2)]
      report_classification_frame [OF report_failed(4)] report_failed(5)
    show ?thesis by simp
  next
    case (completed w1 l w2 w3)
    from train_epochs_frame [OF completed(1)] start last_checkpoint_results [OF completed(2)]
      final_report_frame [OF completed(3)] completed(5)
    show ?thesis by simp
  qed
qed

text \<open>
  Claim C2. For every epoch count \<open>E \<ge> 1\<close>, after \<^verbatim>\<open>train(config)\<close> has completed the
  series \<^verbatim>\<open>"epoch"\<close> and \<^verbatim>\<open>"epoch_time"\<close> each hold exactly \<open>E\<close> entries.
\<close>

theorem train_epoch_series_lengths:
  assumes "train lib c w = (w', Inr u)" and "1 \<le> epochs c"
  shows "\<exists>es ts. results w' ''epoch'' = Some es \<and> results w' ''epoch_time'' = Some ts \<and>
                 int (length es) = epochs c \<and> int (length ts) = epochs c"
proof -
  from assms(1) obtain w1 l where
    loop: "train_epochs lib c [0..epochs c - 1]
       ((info (Info ''starting training'') w)\<lparr>results := init_results (to_track c) Map.empty\<rparr>)
       init_train_locals = (w1, Inr l)" and
    res: "results w' = results w1"
    by (rule train_completed)
  have e0: "results ((info (Info ''starting training'') w)
              \<lparr>results := init_results (to_track c) Map.empty\<rparr>) ''epoch'' = Some []"
    by (simp add: init_results_tracked to_track_always)
  have t0: "results ((info (Info ''starting training'') w)
              \<lparr>results := init_results (to_track c) Map.empty\<rparr>) ''epoch_time'' = Some []"
    by (simp add: init_results_tracked to_track_always)
  from train_epochs_epoch [OF loop e0]
  have es: "results w' ''epoch'' = Some (map (\<lambda>e. IntV (e + 1)) [0..epochs c - 1])"
    using res by simp
  from train_epochs_epoch_time [OF loop t0] obtain ts where
    ts: "results w' ''epoch_time'' = Some ts" and "length ts = length [0..epochs c - 1]"
    using res by auto
  with assms(2) have "int (length ts) = epochs c" by simp
  moreover from assms(2)
  have "int (length (map (\<lambda>e. IntV (e + 1)) [0..epochs c - 1])) = epochs c" by simp
  ultimately show ?thesis using es ts by blast
qed

text \<open>
  Claim C3, as amended. \<^verbatim>\<open>train\<close> runs the epochs \<open>0, ..., E - 1\<close> in order and records
  \<^verbatim>\<open>epoch + 1\<close> for each: after a completed run the series \<^verbatim>\<open>"epoch"\<close> is
  \<open>1, 2, ..., E\<close>.
\<close>

theorem train_epoch_series:
  assumes "train lib c w = (w', Inr u)"
  shows "results w' ''epoch'' = Some (map IntV [1..epochs c])"
proof -
  from assms(1) obtain w1 l where
    loop: "train_epochs lib c [0..epochs c - 1]
       ((info (Info ''starting training'') w)\<lparr>results := init_results (to_track c) Map.empty\<rparr>)
       init_train_locals = (w1, Inr l)" and
    res: "results w' = results w1"
    by (rule train_completed)
  have e0: "results ((info (Info ''starting training'') w)
              \<lparr>results := init_results (to_track c) Map.empty\<rparr>) ''epoch'' = Some []"
    by (simp add: init_results_tracked to_track_always)
  from train_epochs_epoch [OF loop e0]
  have "results w' ''epoch'' = Some (map (\<lambda>e. IntV (e + 1)) [0..epochs c - 1])"
    using res by simp
  moreover have "map (\<lambda>e. IntV (e + 1)) [0..epochs c - 1] = map IntV (map (\<lambda>e. e + 1) [0..epochs c - 1])"
    by simp
  ultimately show ?thesis
    by (simp only: upto_shift) simp
qed

text \<open>
  Claim C7. With a validation loader, the series \<^verbatim>\<open>"validation_loss"\<close> holds one entry per
  epoch after \<^verbatim>\<open>train\<close> has completed: \<open>E\<close> entries for an epoch count \<open>E\<close> (none when
  \<open>E\<close> is not positive, as \<^verbatim>\<open>range(E)\<close> is then empty). Without one, no key of
  \<^verbatim>\<open>results\<close> starts with \<^verbatim>\<open>"validation"\<close>, however the run ends.
\<close>

theorem train_validation_series:
  "(validation_loader c \<noteq> None \<and> train lib c w = (w', Inr u) \<longrightarrow>
      (\<exists>vs. results w' ''validation_loss'' = Some vs \<and> length vs = nat (epochs c))) \<and>
   (validation_loader c = None \<longrightarrow>
      (\<forall>k \<in> dom (results (fst (train lib c w))). take (length ''validation'') k \<noteq> ''validation''))"
proof (intro conjI impI)
  assume a: "validation_loader c \<noteq> None \<and> train lib c w = (w', Inr u)"
  then obtain w1 l where
    loop: "train_epochs lib c [0..epochs c - 1]
       ((info (Info ''starting training'') w)\<lparr>results := init_results (to_track c) Map.empty\<rparr>)
       init_train_locals = (w1, Inr l)" and
    res: "results w' = results w1"
    using train_completed by blast
  from a have v0: "results ((info (Info ''starting training'') w)
              \<lparr>results := init_results (to_track c) Map.empty\<rparr>) ''validation_loss'' = Some []"
    by (simp add: init_results_tracked to_track_validation_loss)
  from a have "validation_loader c \<noteq> None" by simp
  from train_epochs_validation_loss [OF loop this v0] obtain vs where
    "results w' ''validation_loss'' = Some vs" and "length vs = length [0..epochs c - 1]"
    using res by auto
  then show "\<exists>vs. results w' ''validation_loss'' = Some vs \<and> length vs = nat (epochs c)"
    by simp
next
  assume "validation_loader c = None"
  then show "\<forall>k \<in> dom (results (fst (train lib c w))). take (length ''validation'') k \<noteq> ''validation''"
    unfolding train_results_dom using to_track_no_validation by blast
qed

subsection \<open>The example run\<close>

lemmas example_defs =
  train_def train_epoch_def run_epoch_def select_loader_def init_locals_def run_batch_def
  training_step_def finish_epoch_def epoch_entries_def hard_labels_def append_result_def
  info_def validate_def checkpoint_at_def save_checkpoint_def report_classification_def
  to_track_def init_train_locals_def example_library_def example_config_def example_args_def
  example_world_def upto_rec1 Let_def

lemma example_run_completes:
  "snd (train example_library example_config example_world) = Inr ()"
  by (simp add: example_defs)

lemma example_run_epoch:
  "results (fst (train example_library example_config example_world)) ''epoch'' =
     Some [IntV 1, IntV 2, IntV 3]"
  by (simp add: example_defs)

lemma example_run_epoch_time:
  "results (fst (train example_library example_config example_world)) ''epoch_time'' =
     Some [FloatV 1, FloatV 1, FloatV 1]"
  by (simp add: example_defs)

lemma example_run_validation_loss:
  "results (fst (train example_library example_config example_world)) ''validation_loss'' =
     Some [FloatV 1, FloatV 3, FloatV 5]"
  by (simp add: example_defs)

lemma example_run_pair:
  "train example_library example_config example_world =
     (fst (train example_library example_config example_world), Inr ())"
  using example_run_completes by (simp add: prod_eq_iff)

text \<open>Claim C2 on the example run of three epochs.\<close>

theorem train_epoch_series_lengths_witness:
  "train example_library example_config example_world =
     (fst (train example_library example_config example_world), Inr ()) \<and>
   1 \<le> epochs example_config \<and>
   (\<exists>es ts. results (fst (train example_library example_config example_world)) ''epoch'' = Some es \<and>
            results (fst (train example_library example_config example_world)) ''epoch_time'' = Some ts \<and>
            int (length es) = 3 \<and> int (length ts) = 3)"
proof -
  have e: "1 \<le> epochs example_config"
    by (simp add: example_config_def example_args_def)
  have "epochs example_config = 3"
    by (simp add: example_config_def example_args_def)
  with train_epoch_series_lengths [OF example_run_pair e] example_run_pair e
  show ?thesis by simp
qed

text \<open>Claim C3 as stated fails on the example run: the run completes and its series
  \<^verbatim>\<open>"epoch"\<close> is \<open>1, 2, 3\<close>, not the epoch indices \<open>0, 1, 2\<close>.\<close>

theorem train_epoch_series_counterexample:
  "snd (train example_library example_config example_world) = Inr () \<and>
   epochs example_config = 3 \<and>
   results (fst (train example_library example_config example_world)) ''epoch'' =
     Some [IntV 1, IntV 2, IntV 3] \<and>
   results (fst (train example_library example_config example_world)) ''epoch'' \<noteq>
     Some [IntV 0, IntV 1, IntV 2]"
  by (simp add: example_run_completes example_run_epoch)
    (simp add: example_config_def example_args_def)

text \<open>The amended claim C3 on the example run.\<close>

theorem train_epoch_series_witness:
  "train example_library example_config example_world =
     (fst (train example_library example_config example_world), Inr ()) \<and>
   results (fst (train example_library example_config example_world)) ''epoch'' =
     Some [IntV 1, IntV 2, IntV 3]"
proof -
  have "map IntV [1..epochs example_config] = [IntV 1, IntV 2, IntV 3]"
    by (simp add: example_config_def example_args_def upto_rec1)
  with train_epoch_series [OF example_run_pair] example_run_pair
  show ?thesis by simp
qed

text \<open>Claim C7 on the example run, and on the same run without the validation loader.\<close>

theorem train_validation_series_witness:
  "validation_loader example_config \<noteq> None \<and>
   train example_library example_config example_world =
     (fst (train example_library example_config example_world), Inr ()) \<and>
   (\<exists>vs. results (fst (train example_library example_config example_world)) ''validation_loss'' =
            Some vs \<and> length vs = 3) \<and>
   validation_loader (example_config\<lparr>validation_loader := None\<rparr>) = None \<and>
   dom (results (fst (train example_library (example_config\<lparr>validation_loader := None\<rparr>)
                        example_world))) =
     {''epoch'', ''epoch_time'', ''training_loss''} \<and>
   ''validation_loss'' \<notin>
     dom (results (fst (train example_library (example_config\<lparr>validation_loader := None\<rparr>)
                          example_world)))"
proof -
  have v: "validation_loader example_config \<noteq> None"
    by (simp add: example_config_def)
  have n: "nat (epochs example_config) = 3"
    by (simp add: example_config_def example_args_def)
  from train_validation_series [of example_config example_library example_world
      "fst (train example_library example_config example_world)" "()"]
    v example_run_pair n
  have "\<exists>vs. results (fst (train example_library example_config example_world)) ''validation_loss'' =
            Some vs \<and> length vs = 3"
    by simp
  moreover
  have "dom (results (fst (train example_library (example_config\<lparr>validation_loader := None\<rparr>)
                        example_world))) =
     {''epoch'', ''epoch_time'', ''training_loss''}"
    by (auto simp: train_results_dom to_track_def example_config_def example_args_def)
  moreover
  from train_validation_series [of "example_config\<lparr>validation_loader := None\<rparr>"
      example_library example_world]
  have "\<forall>k \<in> dom (results (fst (train example_library
                   (example_config\<lparr>validation_loader := None\<rparr>) example_world))).
          take (length ''validation'') k \<noteq> ''validation''"
    by simp
  then have "''validation_loss'' \<notin>
     dom (results (fst (train example_library (example_config\<lparr>validation_loader := None\<rparr>)
                          example_world)))"
    by force
  ultimately show ?thesis
    using v example_run_pair by simp
qed

end
